theory Spec2Isabelle
  imports Main
begin

section \<open>Literal expressions and their keys (mypy/literals.py)\<close>

subsection \<open>Data model\<close>

text \<open>
  The only exception the module raises by itself: Python's \<^verbatim>\<open>min\<close> applied to an
  empty sequence raises \<^verbatim>\<open>ValueError\<close>. The recursion limit of the interpreter
  is not modelled.
\<close>

datatype error = ValueError

text \<open>
  Modelled from the spec: the three classification constants are imported from
  \<^verbatim>\<open>mypy.nodes\<close>, whose text is not available here. The spec fixes their order,
  No < Unknown-but-stable < Yes; they are Python integers.
\<close>

definition LITERAL_NO :: int where
  "LITERAL_NO = 0"

definition LITERAL_TYPE :: int where
  "LITERAL_TYPE = 1"

definition LITERAL_YES :: int where
  "LITERAL_YES = 2"

text \<open>
  A \<^verbatim>\<open>Var\<close> symbol node, with the two attributes the module reads. The type
  parameter \<open>'v\<close> is the type of constant values (ints, floats, complex numbers, strings,
  bytes) as Python's \<^verbatim>\<open>==\<close> compares them, so that the integer 3 and the float
  3.0 are the same value; the classes that carry them are declared in
  \<^verbatim>\<open>mypy.nodes\<close>. The field \<open>var_id\<close> stands for the identity of the object, by
  which Python compares nodes.
\<close>

record 'v var_node =
  var_id :: nat
  is_final :: bool
  final_value :: "'v option"

text \<open>What a name can be resolved to: a \<^verbatim>\<open>Var\<close>, or a symbol node of another class.\<close>

datatype 'v symbol_node = Var "'v var_node" | OtherSymbol nat

text \<open>
  The expression classes for which the hasher returns \<^verbatim>\<open>None\<close>
  unconditionally, one for each such visit method.
\<close>

datatype other_kind =
    CallExpr | SliceExpr | CastExpr | AssertTypeExpr | ConditionalExpr | EllipsisExpr
  | YieldFromExpr | YieldExpr | RevealExpr | SuperExpr | TypeApplication | LambdaExpr
  | ListComprehension | SetComprehension | DictionaryComprehension | GeneratorExpr
  | TypeVarExpr | ParamSpecExpr | TypeVarTupleExpr | TypeAliasExpr | NamedTupleExpr
  | EnumCallExpr | TypedDictExpr | NewTypeExpr | PromoteExpr | AwaitExpr | TempNode

text \<open>
  Expressions. \<open>NameExpr\<close> carries its resolved node (\<^verbatim>\<open>e.node\<close>, possibly
  \<^verbatim>\<open>None\<close>); a \<open>DictExpr\<close> item has no key when it is a \<^verbatim>\<open>**\<close> spread. The
  classes gathered in \<open>OtherExpr\<close> keep their sub-expressions, which the module never
  reads.
\<close>

datatype 'v expr =
    IntExpr 'v
  | StrExpr 'v
  | BytesExpr 'v
  | FloatExpr 'v
  | ComplexExpr 'v
  | StarExpr "'v expr"
  | NameExpr "'v symbol_node option"
  | MemberExpr "'v expr" string
  | OpExpr string "'v expr" "'v expr"
  | ComparisonExpr "string list" "'v expr list"
  | UnaryExpr string "'v expr"
  | ListExpr "'v expr list"
  | DictExpr "('v expr option \<times> 'v expr) list"
  | TupleExpr "'v expr list"
  | SetExpr "'v expr list"
  | IndexExpr "'v expr" "'v expr"
  | AssignmentExpr "'v expr" "'v expr"
  | OtherExpr other_kind "'v expr list"

text \<open>
  The Python objects a Key is made of. A Key is a tuple; its elements are strings (tags,
  operators, attribute names), constant values, symbol nodes, \<^verbatim>\<open>None\<close> and
  nested tuples.
\<close>

datatype 'v pyobj =
    PyNone
  | PyStr string
  | PyVal 'v
  | PyNode "'v symbol_node"
  | PyTuple "'v pyobj list"

type_synonym 'v Key = "'v pyobj list"

text \<open>A value of type \<^verbatim>\<open>Key | None\<close>, and an \<^verbatim>\<open>e.node\<close>, as tuple elements.\<close>

fun key_obj :: "'v Key option \<Rightarrow> 'v pyobj" where
  "key_obj None = PyNone"
| "key_obj (Some k) = PyTuple k"

fun node_obj :: "'v symbol_node option \<Rightarrow> 'v pyobj" where
  "node_obj None = PyNone"
| "node_obj (Some n) = PyNode n"

text \<open>Truth value of a \<^verbatim>\<open>Key | None\<close>: \<^verbatim>\<open>None\<close> and the empty tuple are false.\<close>

fun truthy :: "'v Key option \<Rightarrow> bool" where
  "truthy None = False"
| "truthy (Some k) = (k \<noteq> [])"

text \<open>
  Example nodes, with integers as constant values: three plain variables and a final
  variable whose recorded value is 3.
\<close>

abbreviation var_x :: "int var_node" where
  "var_x \<equiv> \<lparr>var_id = 0, is_final = False, final_value = None\<rparr>"

abbreviation var_i :: "int var_node" where
  "var_i \<equiv> \<lparr>var_id = 1, is_final = False, final_value = None\<rparr>"

abbreviation var_j :: "int var_node" where
  "var_j \<equiv> \<lparr>var_id = 2, is_final = False, final_value = None\<rparr>"

abbreviation final_three :: "int var_node" where
  "final_three \<equiv> \<lparr>var_id = 3, is_final = True, final_value = Some 3\<rparr>"

abbreviation call :: "int expr" where
  "call \<equiv> OtherExpr CallExpr []"

subsection \<open>Exceptions and generator expressions\<close>

fun bindE :: "error + 'a \<Rightarrow> ('a \<Rightarrow> error + 'b) \<Rightarrow> error + 'b" where
  "bindE (Inl e) f = Inl e"
| "bindE (Inr x) f = f x"

text \<open>\<^verbatim>\<open>tuple(f(x) for x in xs)\<close>: every call is made, in order, up to the first raise.\<close>

fun py_tuple :: "('a \<Rightarrow> error + 'b) \<Rightarrow> 'a list \<Rightarrow> error + 'b list" where
  "py_tuple f [] = Inr []"
| "py_tuple f (x # xs) = bindE (f x) (\<lambda>y. bindE (py_tuple f xs) (\<lambda>ys. Inr (y # ys)))"

text \<open>\<^verbatim>\<open>all(p(x) for x in xs)\<close>: stops at the first false element.\<close>

fun py_all :: "('a \<Rightarrow> error + bool) \<Rightarrow> 'a list \<Rightarrow> error + bool" where
  "py_all p [] = Inr True"
| "py_all p (x # xs) = bindE (p x) (\<lambda>b. if b then py_all p xs else Inr False)"

text \<open>\<^verbatim>\<open>min\<close> of a sequence of integers; it raises on the empty sequence.\<close>

fun py_min :: "int list \<Rightarrow> error + int" where
  "py_min [] = Inl ValueError"
| "py_min (x # xs) = Inr (fold min xs x)"

lemma bindE_cong [fundef_cong]:
  "m = m' \<Longrightarrow> (\<And>x. m' = Inr x \<Longrightarrow> f x = g x) \<Longrightarrow> bindE m f = bindE m' g"
  by (cases m') auto

lemma py_tuple_cong [fundef_cong]:
  "xs = ys \<Longrightarrow> (\<And>x. x \<in> set ys \<Longrightarrow> f x = g x) \<Longrightarrow> py_tuple f xs = py_tuple g ys"
  by (induction ys arbitrary: xs) (auto intro: bindE_cong)

lemma py_all_cong [fundef_cong]:
  "xs = ys \<Longrightarrow> (\<And>x. x \<in> set ys \<Longrightarrow> p x = q x) \<Longrightarrow> py_all p xs = py_all q ys"
  by (induction ys arbitrary: xs) (auto intro: bindE_cong)

subsection \<open>The classifier and the hasher\<close>

text \<open>The visit methods of \<^verbatim>\<open>_Hasher\<close> that return \<^verbatim>\<open>None\<close>.\<close>

fun visit_other :: "other_kind \<Rightarrow> 'v Key option" where
  "visit_other CallExpr = None"
| "visit_other SliceExpr = None"
| "visit_other CastExpr = None"
| "visit_other AssertTypeExpr = None"
| "visit_other ConditionalExpr = None"
| "visit_other EllipsisExpr = None"
| "visit_other YieldFromExpr = None"
| "visit_other YieldExpr = None"
| "visit_other RevealExpr = None"
| "visit_other SuperExpr = None"
| "visit_other TypeApplication = None"
| "visit_other LambdaExpr = None"
| "visit_other ListComprehension = None"
| "visit_other SetComprehension = None"
| "visit_other DictionaryComprehension = None"
| "visit_other GeneratorExpr = None"
| "visit_other TypeVarExpr = None"
| "visit_other ParamSpecExpr = None"
| "visit_other TypeVarTupleExpr = None"
| "visit_other TypeAliasExpr = None"
| "visit_other NamedTupleExpr = None"
| "visit_other EnumCallExpr = None"
| "visit_other TypedDictExpr = None"
| "visit_other NewTypeExpr = None"
| "visit_other PromoteExpr = None"
| "visit_other AwaitExpr = None"
| "visit_other TempNode = None"

text \<open>
  \<^verbatim>\<open>visit_name_expr\<close>: a final variable with a recorded value hashes as that value,
  any other name as its node.
\<close>

fun visit_name_expr :: "'v symbol_node option \<Rightarrow> 'v Key" where
  "visit_name_expr (Some (Var v)) =
     (case final_value v of
        Some c \<Rightarrow> if is_final v then [PyStr ''Literal'', PyVal c]
                  else [PyStr ''Var'', PyNode (Var v)]
      | None \<Rightarrow> [PyStr ''Var'', PyNode (Var v)])"
| "visit_name_expr node = [PyStr ''Var'', node_obj node]"

text \<open>
  \<^verbatim>\<open>literal\<close>, \<^verbatim>\<open>literal_hash\<close> (the dispatch to the visit methods of
  \<^verbatim>\<open>_Hasher\<close>) and \<^verbatim>\<open>_Hasher.seq_expr\<close> call each other.
\<close>

function literal :: "'v expr \<Rightarrow> error + int"
  and literal_hash :: "'v expr \<Rightarrow> error + 'v Key option"
  and seq_expr :: "'v expr list \<Rightarrow> string \<Rightarrow> error + 'v Key option"
where
  "literal (ComparisonExpr operators operands) = bindE (py_tuple literal operands) py_min"
| "literal (OpExpr op left right) =
     bindE (literal left) (\<lambda>a. bindE (literal right) (\<lambda>b. Inr (min a b)))"
| "literal (MemberExpr e name) = literal e"
| "literal (UnaryExpr op e) = literal e"
| "literal (StarExpr e) = literal e"
| "literal (AssignmentExpr target val) = literal target"
| "literal (IndexExpr base index) =
     bindE (literal index) (\<lambda>c. if c = LITERAL_YES then literal base else Inr LITERAL_NO)"
| "literal (NameExpr node) =
     (case node of
        Some (Var v) \<Rightarrow>
          if is_final v \<and> final_value v \<noteq> None then Inr LITERAL_YES else Inr LITERAL_TYPE
      | _ \<Rightarrow> Inr LITERAL_TYPE)"
| "literal (IntExpr v) = Inr LITERAL_YES"
| "literal (FloatExpr v) = Inr LITERAL_YES"
| "literal (ComplexExpr v) = Inr LITERAL_YES"
| "literal (StrExpr v) = Inr LITERAL_YES"
| "literal (BytesExpr v) = Inr LITERAL_YES"
| "literal (ListExpr items) =
     bindE (literal_hash (ListExpr items))
       (\<lambda>h. if truthy h then Inr LITERAL_YES else Inr LITERAL_NO)"
| "literal (DictExpr items) =
     bindE (literal_hash (DictExpr items))
       (\<lambda>h. if truthy h then Inr LITERAL_YES else Inr LITERAL_NO)"
| "literal (TupleExpr items) =
     bindE (literal_hash (TupleExpr items))
       (\<lambda>h. if truthy h then Inr LITERAL_YES else Inr LITERAL_NO)"
| "literal (SetExpr items) =
     bindE (literal_hash (SetExpr items))
       (\<lambda>h. if truthy h then Inr LITERAL_YES else Inr LITERAL_NO)"
| "literal (OtherExpr k es) =
     bindE (literal_hash (OtherExpr k es))
       (\<lambda>h. if truthy h then Inr LITERAL_YES else Inr LITERAL_NO)"
| "literal_hash (IntExpr v) = Inr (Some [PyStr ''Literal'', PyVal v])"
| "literal_hash (StrExpr v) = Inr (Some [PyStr ''Literal'', PyVal v])"
| "literal_hash (BytesExpr v) = Inr (Some [PyStr ''Literal'', PyVal v])"
| "literal_hash (FloatExpr v) = Inr (Some [PyStr ''Literal'', PyVal v])"
| "literal_hash (ComplexExpr v) = Inr (Some [PyStr ''Literal'', PyVal v])"
| "literal_hash (StarExpr e) =
     bindE (literal_hash e) (\<lambda>h. Inr (Some [PyStr ''Star'', key_obj h]))"
| "literal_hash (NameExpr node) = Inr (Some (visit_name_expr node))"
| "literal_hash (MemberExpr e name) =
     bindE (literal_hash e) (\<lambda>h. Inr (Some [PyStr ''Member'', key_obj h, PyStr name]))"
| "literal_hash (OpExpr op left right) =
     bindE (literal_hash left) (\<lambda>hl. bindE (literal_hash right) (\<lambda>hr.
       Inr (Some [PyStr ''Binary'', PyStr op, key_obj hl, key_obj hr])))"
| "literal_hash (ComparisonExpr operators operands) =
     bindE (py_tuple literal_hash operands) (\<lambda>hs.
       Inr (Some ([PyStr ''Comparison''] @ (map PyStr operators @ map key_obj hs))))"
| "literal_hash (UnaryExpr op e) =
     bindE (literal_hash e) (\<lambda>h. Inr (Some [PyStr ''Unary'', PyStr op, key_obj h]))"
| "literal_hash (ListExpr items) = seq_expr items ''List''"
| "literal_hash (DictExpr items) =
     bindE (py_all (\<lambda>(a, b).
              case a of
                None \<Rightarrow> Inr False
              | Some k \<Rightarrow> bindE (literal k) (\<lambda>ca. bindE (literal b) (\<lambda>cb.
                           Inr (ca = cb \<and> cb = LITERAL_YES)))) items)
       (\<lambda>ok. if ok
             then bindE (py_tuple (\<lambda>(a, b).
                          bindE (case a of None \<Rightarrow> Inr None | Some k \<Rightarrow> literal_hash k) (\<lambda>ha.
                          bindE (literal_hash b) (\<lambda>hb.
                            Inr (PyTuple [key_obj ha, key_obj hb])))) items)
                    (\<lambda>rest. Inr (Some ([PyStr ''Dict''] @ rest)))
             else Inr None)"
| "literal_hash (TupleExpr items) = seq_expr items ''Tuple''"
| "literal_hash (SetExpr items) = seq_expr items ''Set''"
| "literal_hash (IndexExpr base index) =
     bindE (literal index) (\<lambda>c.
       if c = LITERAL_YES
       then bindE (literal_hash base) (\<lambda>hb. bindE (literal_hash index) (\<lambda>hi.
              Inr (Some [PyStr ''Index'', key_obj hb, key_obj hi])))
       else Inr None)"
| "literal_hash (AssignmentExpr target val) = literal_hash target"
| "literal_hash (OtherExpr k es) = Inr (visit_other k)"
| "seq_expr items name =
     bindE (py_all (\<lambda>x. bindE (literal x) (\<lambda>c. Inr (c = LITERAL_YES))) items)
       (\<lambda>ok. if ok
             then bindE (py_tuple literal_hash items) (\<lambda>hs.
                    Inr (Some ([PyStr name] @ map key_obj hs)))
             else Inr None)"
  by pat_completeness auto

lemma size_item: "x \<in> set xs \<Longrightarrow> size (x::'v expr) < size_list size xs"
  by (induction xs) auto

lemma size_dict_item:
  "(a, b) \<in> set items \<Longrightarrow>
     size (b::'v expr) < Suc (size_list (size_prod (size_option size) size) items) \<and>
     (\<forall>k. a = Some k \<longrightarrow>
        size k < Suc (size_list (size_prod (size_option size) size) items))"
  by (induction items) auto

text \<open>
  Every call descends into a sub-expression, except the fallback of \<^verbatim>\<open>literal\<close>,
  which hashes the same expression, and the dispatch to \<^verbatim>\<open>seq_expr\<close>.
\<close>

termination literal
  apply (relation "measure (\<lambda>x. case x of
             Inl e \<Rightarrow> 2 * size e + 1
           | Inr (Inl e) \<Rightarrow> 2 * size e
           | Inr (Inr (items, name)) \<Rightarrow> 2 * size_list size items + 1)")
  apply (auto dest!: size_dict_item size_item)
  done

subsection \<open>Helpers on keys\<close>

text \<open>\<^verbatim>\<open>subkeys\<close>: the elements of a key that are tuples.\<close>

fun is_tuple :: "'v pyobj \<Rightarrow> bool" where
  "is_tuple (PyTuple k) = True"
| "is_tuple _ = False"

definition subkeys :: "'v Key \<Rightarrow> 'v pyobj list" where
  "subkeys key = filter is_tuple key"

text \<open>
  \<^verbatim>\<open>extract_var_from_literal_hash\<close>: the key must have length 2, start with the
  string \<^verbatim>\<open>"Var"\<close> and hold a \<^verbatim>\<open>Var\<close> node, which is returned.
\<close>

definition extract_var_from_literal_hash :: "'v Key \<Rightarrow> 'v var_node option" where
  "extract_var_from_literal_hash key =
     (if length key = 2 \<and> key ! 0 = PyStr ''Var''
      then (case key ! 1 of PyNode (Var v) \<Rightarrow> Some v | _ \<Rightarrow> None)
      else None)"

subsection \<open>Expressions named by the specification\<close>

text \<open>
  The target of an assignment expression (\<^verbatim>\<open>y := value\<close>), looked up through
  nested assignment expressions; any other expression is its own target.
\<close>

fun walrus_target :: "'v expr \<Rightarrow> 'v expr" where
  "walrus_target (AssignmentExpr target val) = walrus_target target"
| "walrus_target e = e"

text \<open>
  The expression \<^verbatim>\<open>x[(i, j+1)].m\<close> of the note at the head of the module, for the
  variable nodes \<open>x\<close>, \<open>i\<close>, \<open>j\<close> and the value \<open>one\<close> of the literal \<^verbatim>\<open>1\<close>.
\<close>

definition typical_literal ::
  "'v var_node \<Rightarrow> 'v var_node \<Rightarrow> 'v var_node \<Rightarrow> 'v \<Rightarrow> 'v expr" where
  "typical_literal x i j one =
     MemberExpr
       (IndexExpr (NameExpr (Some (Var x)))
          (TupleExpr [NameExpr (Some (Var i)),
                      OpExpr ''+'' (NameExpr (Some (Var j))) (IntExpr one)]))
       ''m''"

text \<open>
  The shape the parser gives every comparison chain: it has an operand. The predicate
  asks it of every chain in the tree.
\<close>

fun chains_nonempty :: "'v expr \<Rightarrow> bool" where
  "chains_nonempty (ComparisonExpr operators operands) =
     (operands \<noteq> [] \<and> (\<forall>x\<in>set operands. chains_nonempty x))"
| "chains_nonempty (StarExpr e) = chains_nonempty e"
| "chains_nonempty (MemberExpr e name) = chains_nonempty e"
| "chains_nonempty (UnaryExpr op e) = chains_nonempty e"
| "chains_nonempty (OpExpr op left right) = (chains_nonempty left \<and> chains_nonempty right)"
| "chains_nonempty (ListExpr items) = (\<forall>x\<in>set items. chains_nonempty x)"
| "chains_nonempty (TupleExpr items) = (\<forall>x\<in>set items. chains_nonempty x)"
| "chains_nonempty (SetExpr items) = (\<forall>x\<in>set items. chains_nonempty x)"
| "chains_nonempty (DictExpr items) =
     (\<forall>(a, b)\<in>set items.
        (case a of None \<Rightarrow> True | Some k \<Rightarrow> chains_nonempty k) \<and> chains_nonempty b)"
| "chains_nonempty (IndexExpr base index) = (chains_nonempty base \<and> chains_nonempty index)"
| "chains_nonempty (AssignmentExpr target val) =
     (chains_nonempty target \<and> chains_nonempty val)"
| "chains_nonempty (OtherExpr k es) = (\<forall>x\<in>set es. chains_nonempty x)"
| "chains_nonempty e = True"

text \<open>
  Syntactic identity in the words of the specification: two expressions are identical up
  to the kind of their numeric constants when they have the same \<open>numeric_form\<close>, in
  which a float or complex literal is replaced by the integer literal of the same value.
\<close>

fun numeric_form :: "'v expr \<Rightarrow> 'v expr" where
  "numeric_form (FloatExpr v) = IntExpr v"
| "numeric_form (ComplexExpr v) = IntExpr v"
| "numeric_form (StarExpr e) = StarExpr (numeric_form e)"
| "numeric_form (MemberExpr e name) = MemberExpr (numeric_form e) name"
| "numeric_form (OpExpr op left right) = OpExpr op (numeric_form left) (numeric_form right)"
| "numeric_form (ComparisonExpr operators operands) =
     ComparisonExpr operators (map numeric_form operands)"
| "numeric_form (UnaryExpr op e) = UnaryExpr op (numeric_form e)"
| "numeric_form (ListExpr items) = ListExpr (map numeric_form items)"
| "numeric_form (DictExpr items) =
     DictExpr (map (\<lambda>(a, b). (map_option numeric_form a, numeric_form b)) items)"
| "numeric_form (TupleExpr items) = TupleExpr (map numeric_form items)"
| "numeric_form (SetExpr items) = SetExpr (map numeric_form items)"
| "numeric_form (IndexExpr base index) = IndexExpr (numeric_form base) (numeric_form index)"
| "numeric_form (AssignmentExpr target val) =
     AssignmentExpr (numeric_form target) (numeric_form val)"
| "numeric_form (OtherExpr k es) = OtherExpr k (map numeric_form es)"
| "numeric_form e = e"

text \<open>
  What the hasher keeps of an expression: a scalar literal of any kind counts as its
  value, a name resolved to a final variable with a recorded value counts as that value,
  and an assignment expression counts as its target.
\<close>

fun key_form :: "'v expr \<Rightarrow> 'v expr" where
  "key_form (IntExpr v) = IntExpr v"
| "key_form (StrExpr v) = IntExpr v"
| "key_form (BytesExpr v) = IntExpr v"
| "key_form (FloatExpr v) = IntExpr v"
| "key_form (ComplexExpr v) = IntExpr v"
| "key_form (NameExpr node) =
     (case node of
        Some (Var v) \<Rightarrow>
          (case final_value v of
             Some c \<Rightarrow> if is_final v then IntExpr c else NameExpr node
           | None \<Rightarrow> NameExpr node)
      | _ \<Rightarrow> NameExpr node)"
| "key_form (StarExpr e) = StarExpr (key_form e)"
| "key_form (MemberExpr e name) = MemberExpr (key_form e) name"
| "key_form (OpExpr op left right) = OpExpr op (key_form left) (key_form right)"
| "key_form (ComparisonExpr operators operands) =
     ComparisonExpr operators (map key_form operands)"
| "key_form (UnaryExpr op e) = UnaryExpr op (key_form e)"
| "key_form (ListExpr items) = ListExpr (map key_form items)"
| "key_form (DictExpr items) =
     DictExpr (map (\<lambda>(a, b). (map_option key_form a, key_form b)) items)"
| "key_form (TupleExpr items) = TupleExpr (map key_form items)"
| "key_form (SetExpr items) = SetExpr (map key_form items)"
| "key_form (IndexExpr base index) = IndexExpr (key_form base) (key_form index)"
| "key_form (AssignmentExpr target val) = key_form target"
| "key_form (OtherExpr k es) = OtherExpr k (map key_form es)"

subsection \<open>Reading an expression back from a key\<close>

text \<open>
  A decoder for keys, used to show that a key determines the \<open>key_form\<close> of its
  expression. \<open>expr_of_fields k ds\<close> builds the expression of the key \<open>k\<close> from the
  decoded elements \<open>ds\<close> of \<open>k\<close>; a tuple without a tag is a pair of a dict key.
\<close>

fun is_str :: "'v pyobj \<Rightarrow> bool" where
  "is_str (PyStr s) = True"
| "is_str _ = False"

fun str_of :: "'v pyobj \<Rightarrow> string" where
  "str_of (PyStr s) = s"
| "str_of _ = []"

fun pair_of :: "'v expr \<Rightarrow> 'v expr option \<times> 'v expr" where
  "pair_of (TupleExpr [a, b]) = (Some a, b)"
| "pair_of e = (None, e)"

definition expr_of_fields :: "'v pyobj list \<Rightarrow> 'v expr list \<Rightarrow> 'v expr" where
  "expr_of_fields k ds =
     (case k of
        PyStr tag # rest \<Rightarrow>
          if tag = ''Literal'' then (case rest of [PyVal v] \<Rightarrow> IntExpr v | _ \<Rightarrow> NameExpr None)
          else if tag = ''Var''
            then (case rest of [PyNode n] \<Rightarrow> NameExpr (Some n) | _ \<Rightarrow> NameExpr None)
          else if tag = ''Star'' then StarExpr (ds ! 1)
          else if tag = ''Member'' then MemberExpr (ds ! 1) (str_of (k ! 2))
          else if tag = ''Binary'' then OpExpr (str_of (k ! 1)) (ds ! 2) (ds ! 3)
          else if tag = ''Comparison''
            then ComparisonExpr (map str_of (takeWhile is_str rest))
                   (drop (Suc (length (takeWhile is_str rest))) ds)
          else if tag = ''Unary'' then UnaryExpr (str_of (k ! 1)) (ds ! 2)
          else if tag = ''List'' then ListExpr (tl ds)
          else if tag = ''Tuple'' then TupleExpr (tl ds)
          else if tag = ''Set'' then SetExpr (tl ds)
          else if tag = ''Dict'' then DictExpr (map pair_of (tl ds))
          else if tag = ''Index'' then IndexExpr (ds ! 1) (ds ! 2)
          else NameExpr None
      | _ \<Rightarrow> TupleExpr ds)"

primrec expr_of_obj :: "'v pyobj \<Rightarrow> 'v expr" where
  "expr_of_obj PyNone = NameExpr None"
| "expr_of_obj (PyStr s) = NameExpr None"
| "expr_of_obj (PyVal v) = NameExpr None"
| "expr_of_obj (PyNode n) = NameExpr None"
| "expr_of_obj (PyTuple k) = expr_of_fields k (map expr_of_obj k)"

section \<open>Basic facts\<close>

lemma literal_consts [simp]:
  "LITERAL_NO \<noteq> LITERAL_YES" "LITERAL_YES \<noteq> LITERAL_NO"
  "LITERAL_NO \<noteq> LITERAL_TYPE" "LITERAL_TYPE \<noteq> LITERAL_NO"
  "LITERAL_TYPE \<noteq> LITERAL_YES" "LITERAL_YES \<noteq> LITERAL_TYPE"
  "LITERAL_NO < LITERAL_TYPE" "LITERAL_TYPE < LITERAL_YES" "LITERAL_NO < LITERAL_YES"
  by (simp_all add: LITERAL_NO_def LITERAL_TYPE_def LITERAL_YES_def)

lemma bindE_eq_Inr [simp]: "bindE m f = Inr y \<longleftrightarrow> (\<exists>x. m = Inr x \<and> f x = Inr y)"
  by (cases m) auto

lemma bindE_eq_Inl: "bindE m f = Inl e \<longleftrightarrow> m = Inl e \<or> (\<exists>x. m = Inr x \<and> f x = Inl e)"
  by (cases m) auto

lemma py_tuple_eq_Inr: "py_tuple f xs = Inr ys \<longleftrightarrow> list_all2 (\<lambda>x y. f x = Inr y) xs ys"
proof (induction xs arbitrary: ys)
  case Nil
  show ?case by auto
next
  case (Cons x xs)
  show ?case by (cases ys) (auto simp: Cons.IH)
qed

lemma py_tuple_returns:
  "(\<forall>x\<in>set xs. \<exists>y. f x = Inr y) \<Longrightarrow> \<exists>ys. py_tuple f xs = Inr ys"
  by (induction xs) auto

lemma py_all_eq_True: "py_all p xs = Inr True \<longleftrightarrow> (\<forall>x\<in>set xs. p x = Inr True)"
  by (induction xs) auto

lemma py_min_eq_Inr: "py_min cs = Inr m \<longleftrightarrow> cs \<noteq> [] \<and> m = Min (set cs)"
  by (cases cs) (auto simp: Min.set_eq_fold [symmetric])


lemma py_all_returns:
  "(\<forall>x\<in>set xs. \<exists>b. p x = Inr b) \<Longrightarrow> py_all p xs = Inr (\<forall>x\<in>set xs. p x = Inr True)"
proof (induction xs)
  case Nil
  show ?case by simp
next
  case (Cons x xs)
  then obtain b where b: "p x = Inr b" by auto
  have rest: "py_all p xs = Inr (\<forall>x\<in>set xs. p x = Inr True)" using Cons by simp
  show ?case
  proof (cases b)
    case True
    then show ?thesis using b rest by simp
  next
    case False
    then show ?thesis using b by simp
  qed
qed

lemma list_all2_Min_mem:
  "list_all2 (\<lambda>x y. f x = Inr y) xs cs \<Longrightarrow> cs \<noteq> [] \<Longrightarrow>
     \<exists>x\<in>set xs. f x = Inr (Min (set cs))"
proof -
  assume a: "list_all2 (\<lambda>x y. f x = Inr y) xs cs" and ne: "cs \<noteq> []"
  have "Min (set cs) \<in> set cs" using ne by simp
  then obtain i where i: "i < length cs" "cs ! i = Min (set cs)" by (auto simp: in_set_conv_nth)
  have "f (xs ! i) = Inr (cs ! i)" using a i(1) by (simp add: list_all2_conv_all_nth)
  moreover have "xs ! i \<in> set xs" using a i(1) by (simp add: list_all2_lengthD)
  ultimately show ?thesis using i(2) by metis
qed

lemma literal_range:
  "literal e = Inr c \<Longrightarrow> c = LITERAL_NO \<or> c = LITERAL_TYPE \<or> c = LITERAL_YES"
proof (induction e arbitrary: c)
  case (ComparisonExpr ops operands)
  then obtain cs where cs: "list_all2 (\<lambda>x y. literal x = Inr y) operands cs"
      "cs \<noteq> []" "c = Min (set cs)"
    by (auto simp: py_tuple_eq_Inr py_min_eq_Inr)
  from list_all2_Min_mem [OF cs(1,2)] obtain x where "x \<in> set operands" "literal x = Inr c"
    using cs(3) by auto
  then show ?case using ComparisonExpr.IH by blast
next
  case (OpExpr op l r)
  then show ?case by (auto simp: min_def split: if_splits)
next
  case (NameExpr node)
  then show ?case by (auto split: option.splits symbol_node.splits if_splits)
next
  case (IndexExpr base index)
  then show ?case by (auto split: if_splits)
qed (auto split: if_splits)


declare seq_expr.simps [simp del]

lemmas literal_hash_DictExpr = literal_hash.simps(13)

declare literal_hash.simps(13) [simp del]

lemma visit_other_absent [simp]: "visit_other k = None"
  by (cases k) simp_all

lemma list_all2_returns:
  "list_all2 (\<lambda>x y. f x = Inr y) xs ys \<Longrightarrow> x \<in> set xs \<Longrightarrow> \<exists>y. f x = Inr y"
  by (auto simp: list_all2_conv_all_nth in_set_conv_nth)

lemma hash_absent_literal_no:
  "literal_hash e = Inr None \<Longrightarrow> literal e = Inr LITERAL_NO"
proof (induction e)
  case (IndexExpr base index)
  then show ?case by (auto split: if_splits)
qed auto

lemma literal_returns_hash_returns:
  "literal e = Inr c \<Longrightarrow> \<exists>h. literal_hash e = Inr h"
proof (induction e arbitrary: c)
  case (ComparisonExpr ops operands)
  then obtain cs where cs: "list_all2 (\<lambda>x y. literal x = Inr y) operands cs"
    by (auto simp: py_tuple_eq_Inr)
  have "\<forall>x\<in>set operands. \<exists>h. literal_hash x = Inr h"
    using list_all2_returns [OF cs] ComparisonExpr.IH by blast
  from py_tuple_returns [OF this] show ?case by auto
next
  case (IndexExpr base index)
  then show ?case by (fastforce split: if_splits)
next
  case (OpExpr op l r)
  then show ?case by fastforce
qed auto

lemma literal_hash_nonempty:
  "literal_hash e = Inr (Some k) \<Longrightarrow> k \<noteq> []"
proof (induction e arbitrary: k)
  case (NameExpr node)
  then show ?case by (cases node rule: visit_name_expr.cases) (auto split: option.splits if_splits)
next
  case (IndexExpr base index)
  then show ?case by (auto split: if_splits)
qed (auto simp: seq_expr.simps literal_hash_DictExpr split: if_splits)

lemma literal_not_no_hash_present:
  assumes "literal e = Inr c" "c \<noteq> LITERAL_NO"
  shows "\<exists>k. literal_hash e = Inr (Some k)"
proof -
  obtain h where h: "literal_hash e = Inr h"
    using literal_returns_hash_returns [OF assms(1)] by blast
  have "h \<noteq> None" using hash_absent_literal_no [of e] h assms by auto
  then show ?thesis using h by auto
qed

lemma literal_nonneg: "literal e = Inr c \<Longrightarrow> LITERAL_NO \<le> c"
  using literal_range [of e c] by (auto intro: less_imp_le)

lemma comparison_no:
  assumes "x \<in> set operands" "literal x = Inr LITERAL_NO"
    and "\<forall>y\<in>set operands. \<exists>c. literal y = Inr c"
  shows "literal (ComparisonExpr ops operands) = Inr LITERAL_NO"
proof -
  obtain cs where cs: "py_tuple literal operands = Inr cs"
    using py_tuple_returns [OF assms(3)] by blast
  then have all2: "list_all2 (\<lambda>y c. literal y = Inr c) operands cs"
    by (simp add: py_tuple_eq_Inr)
  obtain i where i: "i < length operands" "operands ! i = x"
    using assms(1) by (auto simp: in_set_conv_nth)
  have len: "length cs = length operands" using all2 by (simp add: list_all2_lengthD)
  have "literal (operands ! i) = Inr (cs ! i)"
    using all2 i(1) by (simp add: list_all2_conv_all_nth)
  then have "cs ! i = LITERAL_NO" using i(2) assms(2) by simp
  then have mem: "LITERAL_NO \<in> set cs" using i(1) len by (metis nth_mem)
  have "\<forall>c\<in>set cs. LITERAL_NO \<le> c"
  proof
    fix c assume "c \<in> set cs"
    then obtain j where j: "j < length cs" "cs ! j = c" by (auto simp: in_set_conv_nth)
    have "literal (operands ! j) = Inr c"
      using all2 j by (auto simp: list_all2_conv_all_nth)
    then show "LITERAL_NO \<le> c" by (rule literal_nonneg)
  qed
  then have "Min (set cs) = LITERAL_NO" using mem by (intro Min_eqI) auto
  moreover have "cs \<noteq> []" using mem by auto
  ultimately have "py_min cs = Inr LITERAL_NO" by (simp add: py_min_eq_Inr)
  then show ?thesis using cs by simp
qed

lemma key_obj_Some: "map key_obj (map Some ks) = map PyTuple ks"
  by (induction ks) auto

lemma py_tuple_present:
  "(\<forall>x\<in>set xs. \<exists>k. f x = Inr (Some k)) \<Longrightarrow>
     \<exists>ks. list_all2 (\<lambda>x k. f x = Inr (Some k)) xs ks \<and> py_tuple f xs = Inr (map Some ks)"
proof (induction xs)
  case Nil
  show ?case by simp
next
  case (Cons x xs)
  then obtain k ks where "f x = Inr (Some k)"
      "list_all2 (\<lambda>x k. f x = Inr (Some k)) xs ks" "py_tuple f xs = Inr (map Some ks)"
    by auto
  then have "list_all2 (\<lambda>x k. f x = Inr (Some k)) (x # xs) (k # ks) \<and>
      py_tuple f (x # xs) = Inr (map Some (k # ks))"
    by simp
  then show ?case by blast
qed

lemma seq_expr_absent:
  assumes "\<forall>x\<in>set items. \<exists>c. literal x = Inr c"
    and "\<exists>x\<in>set items. literal x \<noteq> Inr LITERAL_YES"
  shows "seq_expr items name = Inr None"
proof -
  let ?p = "\<lambda>x. bindE (literal x) (\<lambda>c. Inr (c = LITERAL_YES))"
  have "\<forall>x\<in>set items. \<exists>b. ?p x = Inr b" using assms(1) by auto
  from py_all_returns [OF this]
  have "py_all ?p items = Inr (\<forall>x\<in>set items. ?p x = Inr True)" .
  moreover have "\<not> (\<forall>x\<in>set items. ?p x = Inr True)" using assms(2) by auto
  ultimately have "py_all ?p items = Inr False" by simp
  then show ?thesis by (simp add: seq_expr.simps)
qed

lemma py_tuple_rel:
  "(\<forall>x\<in>set xs. \<exists>y. f x = Inr y \<and> R x y) \<Longrightarrow>
     \<exists>ys. py_tuple f xs = Inr ys \<and> list_all2 R xs ys"
proof (induction xs)
  case Nil
  show ?case by simp
next
  case (Cons x xs)
  then obtain y ys where "f x = Inr y" "R x y" "py_tuple f xs = Inr ys" "list_all2 R xs ys"
    by auto
  then have "py_tuple f (x # xs) = Inr (y # ys) \<and> list_all2 R (x # xs) (y # ys)"
    by simp
  then show ?case by blast
qed

lemma dict_present:
  assumes yes: "\<forall>(a, b)\<in>set items.
      \<exists>k. a = Some k \<and> literal k = Inr LITERAL_YES \<and> literal b = Inr LITERAL_YES"
  shows "\<exists>ps. list_all2 (\<lambda>(a, b) p. \<exists>k hk hb. a = Some k \<and>
                   literal_hash k = Inr (Some hk) \<and> literal_hash b = Inr (Some hb) \<and>
                   p = PyTuple [PyTuple hk, PyTuple hb]) items ps \<and>
           literal_hash (DictExpr items) = Inr (Some (PyStr ''Dict'' # ps))"
proof -
  let ?ok = "\<lambda>(a, b). case a of None \<Rightarrow> Inr False
      | Some k \<Rightarrow> bindE (literal k) (\<lambda>ca. bindE (literal b) (\<lambda>cb.
                   Inr (ca = cb \<and> cb = LITERAL_YES)))"
  let ?pair = "\<lambda>(a, b). bindE (case a of None \<Rightarrow> Inr None | Some k \<Rightarrow> literal_hash k)
      (\<lambda>ha. bindE (literal_hash b) (\<lambda>hb. Inr (PyTuple [key_obj ha, key_obj hb])))"
  let ?R = "\<lambda>(a, b) p. \<exists>k hk hb. a = Some k \<and>
                   literal_hash k = Inr (Some hk) \<and> literal_hash b = Inr (Some hb) \<and>
                   p = PyTuple [PyTuple hk, PyTuple hb]"
  have "\<forall>x\<in>set items. ?ok x = Inr True"
    using yes by fastforce
  then have all: "py_all ?ok items = Inr True"
    by (simp only: py_all_eq_True)
  have "\<forall>x\<in>set items. \<exists>p. ?pair x = Inr p \<and> ?R x p"
  proof
    fix x assume x: "x \<in> set items"
    obtain a b where ab: "x = (a, b)" by (cases x)
    obtain k where k: "a = Some k" "literal k = Inr LITERAL_YES" "literal b = Inr LITERAL_YES"
      using yes x ab by fastforce
    obtain hk where hk: "literal_hash k = Inr (Some hk)"
      using literal_not_no_hash_present [OF k(2)] by auto
    obtain hb where hb: "literal_hash b = Inr (Some hb)"
      using literal_not_no_hash_present [OF k(3)] by auto
    show "\<exists>p. ?pair x = Inr p \<and> ?R x p"
      using ab k(1) hk hb by simp
  qed
  from py_tuple_rel [OF this] obtain ps where
    ps: "py_tuple ?pair items = Inr ps" "list_all2 ?R items ps"
    by blast
  have "literal_hash (DictExpr items) = Inr (Some (PyStr ''Dict'' # ps))"
    by (simp only: literal_hash_DictExpr all ps(1) bindE.simps if_True append.simps)
  then show ?thesis using ps(2) by blast
qed

lemma dict_absent:
  assumes ret: "\<forall>(a, b)\<in>set items.
      \<forall>k. a = Some k \<longrightarrow> (\<exists>c. literal k = Inr c) \<and> (\<exists>c. literal b = Inr c)"
    and bad: "\<exists>(a, b)\<in>set items.
      a = None \<or> (\<exists>k. a = Some k \<and> \<not> (literal k = Inr LITERAL_YES \<and> literal b = Inr LITERAL_YES))"
  shows "literal_hash (DictExpr items) = Inr None"
proof -
  let ?ok = "\<lambda>(a, b). case a of None \<Rightarrow> Inr False
      | Some k \<Rightarrow> bindE (literal k) (\<lambda>ca. bindE (literal b) (\<lambda>cb.
                   Inr (ca = cb \<and> cb = LITERAL_YES)))"
  have "\<forall>x\<in>set items. \<exists>bo. ?ok x = Inr bo"
  proof
    fix x assume x: "x \<in> set items"
    obtain a b where ab: "x = (a, b)" by (cases x)
    show "\<exists>bo. ?ok x = Inr bo"
    proof (cases a)
      case None
      then have "?ok x = Inr False" using ab by simp
      then show ?thesis by blast
    next
      case (Some k)
      then obtain ca cb where "literal k = Inr ca" "literal b = Inr cb"
        using ret x ab by fastforce
      then show ?thesis using ab Some by simp
    qed
  qed
  from py_all_returns [OF this]
  have "py_all ?ok items = Inr (\<forall>x\<in>set items. ?ok x = Inr True)" .
  moreover have "\<not> (\<forall>x\<in>set items. ?ok x = Inr True)"
  proof -
    obtain a b where ab: "(a, b) \<in> set items"
      "a = None \<or> (\<exists>k. a = Some k \<and> \<not> (literal k = Inr LITERAL_YES \<and> literal b = Inr LITERAL_YES))"
      using bad by auto
    have "?ok (a, b) \<noteq> Inr True"
    proof (cases a)
      case None
      then show ?thesis by simp
    next
      case (Some k)
      then show ?thesis using ab(2) by auto
    qed
    then show ?thesis using ab(1) by blast
  qed
  ultimately have "py_all ?ok items = Inr False" by simp
  then show ?thesis
    by (simp only: literal_hash_DictExpr bindE.simps if_False)
qed

lemma seq_expr_returns:
  assumes "\<forall>x\<in>set items. \<exists>c. literal x = Inr c"
  shows "\<exists>h. seq_expr items name = Inr h"
proof (cases "\<forall>x\<in>set items. literal x = Inr LITERAL_YES")
  case True
  have "\<forall>x\<in>set items. \<exists>k. literal_hash x = Inr (Some k)"
    using True literal_not_no_hash_present by (metis literal_consts(2))
  from py_tuple_present [OF this] obtain ks where
    ks: "py_tuple literal_hash items = Inr (map Some ks)"
    by blast
  have "py_all (\<lambda>x. bindE (literal x) (\<lambda>c. Inr (c = LITERAL_YES))) items = Inr True"
    using True by (simp add: py_all_eq_True)
  then show ?thesis using ks by (simp add: seq_expr.simps)
next
  case False
  then show ?thesis using seq_expr_absent [OF assms, of name] by blast
qed

lemma dict_returns:
  assumes ret: "\<forall>(a, b)\<in>set items.
      \<forall>k. a = Some k \<longrightarrow> (\<exists>c. literal k = Inr c) \<and> (\<exists>c. literal b = Inr c)"
  shows "\<exists>h. literal_hash (DictExpr items) = Inr h"
proof (cases "\<forall>(a, b)\<in>set items.
      \<exists>k. a = Some k \<and> literal k = Inr LITERAL_YES \<and> literal b = Inr LITERAL_YES")
  case True
  from dict_present [OF this] show ?thesis by blast
next
  case False
  then obtain a b where ab: "(a, b) \<in> set items"
    "\<not> (\<exists>k. a = Some k \<and> literal k = Inr LITERAL_YES \<and> literal b = Inr LITERAL_YES)"
    by blast
  have "a = None \<or>
      (\<exists>k. a = Some k \<and> \<not> (literal k = Inr LITERAL_YES \<and> literal b = Inr LITERAL_YES))"
    using ab(2) by (cases a) simp_all
  then have "\<exists>(a, b)\<in>set items.
      a = None \<or> (\<exists>k. a = Some k \<and> \<not> (literal k = Inr LITERAL_YES \<and> literal b = Inr LITERAL_YES))"
    using ab(1) by blast
  from dict_absent [OF ret this] show ?thesis by blast
qed

lemma fallback_returns:
  "literal_hash e = Inr h \<Longrightarrow>
     \<exists>c. bindE (literal_hash e) (\<lambda>h. if truthy h then Inr LITERAL_YES else Inr LITERAL_NO) = Inr c"
  by simp

lemma literal_total:
  "chains_nonempty e \<Longrightarrow> \<exists>c. literal e = Inr c"
proof (induction e)
  case (ComparisonExpr ops operands)
  then have "\<forall>x\<in>set operands. \<exists>c. literal x = Inr c" by simp
  from py_tuple_returns [OF this] obtain cs where cs: "py_tuple literal operands = Inr cs"
    by blast
  then have "length operands = length cs"
    by (simp add: py_tuple_eq_Inr list_all2_lengthD)
  then have "cs \<noteq> []" using ComparisonExpr.prems by auto
  then show ?case using cs by (simp add: py_min_eq_Inr)
next
  case (ListExpr items)
  then have "\<forall>x\<in>set items. \<exists>c. literal x = Inr c" by simp
  from seq_expr_returns [OF this] obtain h where "literal_hash (ListExpr items) = Inr h"
    by auto
  from fallback_returns [OF this] show ?case by (simp only: literal.simps)
next
  case (TupleExpr items)
  then have "\<forall>x\<in>set items. \<exists>c. literal x = Inr c" by simp
  from seq_expr_returns [OF this] obtain h where "literal_hash (TupleExpr items) = Inr h"
    by auto
  from fallback_returns [OF this] show ?case by (simp only: literal.simps)
next
  case (SetExpr items)
  then have "\<forall>x\<in>set items. \<exists>c. literal x = Inr c" by simp
  from seq_expr_returns [OF this] obtain h where "literal_hash (SetExpr items) = Inr h"
    by auto
  from fallback_returns [OF this] show ?case by (simp only: literal.simps)
next
  case (DictExpr items)
  have "\<forall>(a, b)\<in>set items.
      \<forall>k. a = Some k \<longrightarrow> (\<exists>c. literal k = Inr c) \<and> (\<exists>c. literal b = Inr c)"
  proof (intro ballI, clarify)
    fix a b k assume m: "(Some k, b) \<in> set items"
    have "chains_nonempty k" "chains_nonempty b" using DictExpr.prems m by auto
    moreover have "k \<in> set_option (Some k)" "Some k \<in> Basic_BNFs.fsts (Some k, b)"
      "b \<in> Basic_BNFs.snds (Some k, b)" by simp_all
    ultimately show "(\<exists>c. literal k = Inr c) \<and> (\<exists>c. literal b = Inr c)"
      using DictExpr.IH m by blast
  qed
  from dict_returns [OF this] obtain h where "literal_hash (DictExpr items) = Inr h"
    by auto
  from fallback_returns [OF this] show ?case by (simp only: literal.simps)
next
  case (IndexExpr base index)
  then obtain cb ci where c: "literal base = Inr cb" "literal index = Inr ci" by auto
  show ?case
  proof (cases "ci = LITERAL_YES")
    case True
    then show ?thesis using c by simp
  next
    case False
    then show ?thesis using c by simp
  qed
next
  case (OpExpr op l r)
  then obtain a b where "literal l = Inr a" "literal r = Inr b" by auto
  then show ?case by simp
next
  case (NameExpr node)
  show ?case by (cases node rule: visit_name_expr.cases) simp_all
next
  case (OtherExpr k es)
  show ?case by simp
qed simp_all

subsection \<open>Keys and key forms\<close>

lemma py_tuple_map: "py_tuple g (map f xs) = py_tuple (\<lambda>x. g (f x)) xs"
  by (induction xs) simp_all

lemma py_all_map: "py_all p (map f xs) = py_all (\<lambda>x. p (f x)) xs"
  by (induction xs) (simp_all cong: if_cong)

lemma seq_expr_map:
  assumes "\<forall>x\<in>set items. literal (f x) = literal x \<and> literal_hash (f x) = literal_hash x"
  shows "seq_expr (map f items) name = seq_expr items name"
proof -
  have a: "py_all (\<lambda>x. bindE (literal (f x)) (\<lambda>c. Inr (c = LITERAL_YES))) items =
      py_all (\<lambda>x. bindE (literal x) (\<lambda>c. Inr (c = LITERAL_YES))) items"
    by (rule py_all_cong) (simp_all add: assms)
  have b: "py_tuple (\<lambda>x. literal_hash (f x)) items = py_tuple literal_hash items"
    by (rule py_tuple_cong) (simp_all add: assms)
  show ?thesis
    by (simp only: seq_expr.simps py_all_map py_tuple_map a b)
qed

lemma key_form_name:
  "literal (key_form (NameExpr node)) = literal (NameExpr node) \<and>
   literal_hash (key_form (NameExpr node)) = literal_hash (NameExpr node)"
  by (cases node rule: visit_name_expr.cases) (simp_all split: option.splits)

lemma key_form_same:
  "literal (key_form e) = literal e \<and> literal_hash (key_form e) = literal_hash e"
proof (induction e)
  case (NameExpr node)
  show ?case by (rule key_form_name)
next
  case (ComparisonExpr ops operands)
  then have "py_tuple (\<lambda>x. literal (key_form x)) operands = py_tuple literal operands"
    "py_tuple (\<lambda>x. literal_hash (key_form x)) operands = py_tuple literal_hash operands"
    by (auto intro: py_tuple_cong)
  then show ?case by (simp add: py_tuple_map)
next
  case (ListExpr items)
  then show ?case by (simp add: seq_expr_map)
next
  case (TupleExpr items)
  then show ?case by (simp add: seq_expr_map)
next
  case (SetExpr items)
  then show ?case by (simp add: seq_expr_map)
next
  case (DictExpr items)
  have item: "literal (key_form b) = literal b \<and> literal_hash (key_form b) = literal_hash b \<and>
      (\<forall>k. a = Some k \<longrightarrow> literal (key_form k) = literal k \<and>
                             literal_hash (key_form k) = literal_hash k)"
    if "(a, b) \<in> set items" for a b
  proof -
    have "b \<in> Basic_BNFs.snds (a, b)" by simp
    moreover have "k \<in> set_option a" "a \<in> Basic_BNFs.fsts (a, b)" if "a = Some k" for k
      using that by simp_all
    ultimately show ?thesis using DictExpr.IH that by blast
  qed
  have "literal_hash (DictExpr (map (\<lambda>(a, b). (map_option key_form a, key_form b)) items)) =
      literal_hash (DictExpr items)"
    unfolding literal_hash_DictExpr py_all_map py_tuple_map
    apply (rule arg_cong2 [where f = bindE])
     apply (rule py_all_cong [OF refl])
     apply (auto split: option.splits dest: item)[1]
    apply (rule ext)
    apply (rule if_cong [OF refl _ refl])
    apply (rule arg_cong2 [where f = bindE, OF _ refl])
    apply (rule py_tuple_cong [OF refl])
    apply (auto split: option.splits dest: item)[1]
    done
  then show ?case by simp
qed (simp_all cong: if_cong)

lemma takeWhile_strs:
  "takeWhile is_str (map PyStr ops @ map PyTuple ks) = map PyStr ops"
  by (induction ops) (simp_all add: takeWhile_eq_Nil_iff, cases ks, simp_all)

lemma seq_expr_some_yes:
  "seq_expr items name = Inr (Some k) \<Longrightarrow> \<forall>x\<in>set items. literal x = Inr LITERAL_YES"
proof -
  assume "seq_expr items name = Inr (Some k)"
  then have "py_all (\<lambda>x. bindE (literal x) (\<lambda>c. Inr (c = LITERAL_YES))) items = Inr True"
    by (auto simp: seq_expr.simps split: if_splits)
  then show ?thesis by (auto simp: py_all_eq_True)
qed

lemma dict_some_yes:
  assumes "literal_hash (DictExpr items) = Inr (Some k)"
  shows "\<forall>(a, b)\<in>set items.
      \<exists>key. a = Some key \<and> literal key = Inr LITERAL_YES \<and> literal b = Inr LITERAL_YES"
proof -
  let ?ok = "\<lambda>(a, b). case a of None \<Rightarrow> Inr False
      | Some k \<Rightarrow> bindE (literal k) (\<lambda>ca. bindE (literal b) (\<lambda>cb.
                   Inr (ca = cb \<and> cb = LITERAL_YES)))"
  have "py_all ?ok items = Inr True"
    using assms by (auto simp: literal_hash_DictExpr split: if_splits)
  then have "\<forall>x\<in>set items. ?ok x = Inr True" by (simp only: py_all_eq_True)
  then show ?thesis by (fastforce split: option.splits)
qed

lemma decode_children:
  "list_all2 (\<lambda>x k. literal_hash x = Inr (Some k)) xs ks \<Longrightarrow>
   (\<forall>x\<in>set xs. \<forall>k. literal_hash x = Inr (Some k) \<longrightarrow> expr_of_obj (PyTuple k) = key_form x) \<Longrightarrow>
   map expr_of_obj (map PyTuple ks) = map key_form xs"
  by (induction xs ks rule: list_all2_induct) auto

lemma decode_literal: "expr_of_obj (PyTuple [PyStr ''Literal'', PyVal v]) = IntExpr v"
  by (simp add: expr_of_fields_def)

lemma decode_var: "expr_of_obj (PyTuple [PyStr ''Var'', node_obj node]) = NameExpr node"
  by (cases node) (simp_all add: expr_of_fields_def)

lemma decode_star:
  "expr_of_obj (PyTuple [PyStr ''Star'', PyTuple k]) = StarExpr (expr_of_obj (PyTuple k))"
  by (simp add: expr_of_fields_def)

lemma decode_member:
  "expr_of_obj (PyTuple [PyStr ''Member'', PyTuple k, PyStr name]) =
     MemberExpr (expr_of_obj (PyTuple k)) name"
  by (simp add: expr_of_fields_def)

lemma decode_unary:
  "expr_of_obj (PyTuple [PyStr ''Unary'', PyStr op, PyTuple k]) =
     UnaryExpr op (expr_of_obj (PyTuple k))"
  by (simp add: expr_of_fields_def)

lemma decode_binary:
  "expr_of_obj (PyTuple [PyStr ''Binary'', PyStr op, PyTuple kl, PyTuple kr]) =
     OpExpr op (expr_of_obj (PyTuple kl)) (expr_of_obj (PyTuple kr))"
  by (simp add: expr_of_fields_def)

lemma decode_index:
  "expr_of_obj (PyTuple [PyStr ''Index'', PyTuple kb, PyTuple ki]) =
     IndexExpr (expr_of_obj (PyTuple kb)) (expr_of_obj (PyTuple ki))"
  by (simp add: expr_of_fields_def)

lemma decode_comparison:
  "expr_of_obj (PyTuple (PyStr ''Comparison'' # map PyStr ops @ map PyTuple ks)) =
     ComparisonExpr ops (map expr_of_obj (map PyTuple ks))"
proof -
  have "map str_of (map PyStr ops) = ops" by (induction ops) simp_all
  then show ?thesis
    by (simp add: expr_of_fields_def takeWhile_strs del: map_map)
qed

lemma decode_seq:
  "expr_of_obj (PyTuple (PyStr ''List'' # ps)) = ListExpr (map expr_of_obj ps)"
  "expr_of_obj (PyTuple (PyStr ''Tuple'' # ps)) = TupleExpr (map expr_of_obj ps)"
  "expr_of_obj (PyTuple (PyStr ''Set'' # ps)) = SetExpr (map expr_of_obj ps)"
  by (simp_all add: expr_of_fields_def)

lemma decode_dict:
  "expr_of_obj (PyTuple (PyStr ''Dict'' # ps)) = DictExpr (map pair_of (map expr_of_obj ps))"
  by (simp add: expr_of_fields_def)

lemma decode_pair:
  "pair_of (expr_of_obj (PyTuple [PyTuple hk, PyTuple hb])) =
     (Some (expr_of_obj (PyTuple hk)), expr_of_obj (PyTuple hb))"
  by (simp add: expr_of_fields_def)

declare expr_of_obj.simps(5) [simp del]

lemma seq_expr_present:
  assumes "\<forall>x\<in>set items. literal x = Inr LITERAL_YES"
  shows "\<exists>ks. list_all2 (\<lambda>x k. literal_hash x = Inr (Some k)) items ks \<and>
           seq_expr items name = Inr (Some (PyStr name # map PyTuple ks))"
proof -
  have "\<forall>x\<in>set items. \<exists>k. literal_hash x = Inr (Some k)"
    using assms literal_not_no_hash_present by (metis literal_consts(2))
  from py_tuple_present [OF this] obtain ks where
    ks: "list_all2 (\<lambda>x k. literal_hash x = Inr (Some k)) items ks"
        "py_tuple literal_hash items = Inr (map Some ks)"
    by blast
  have "py_all (\<lambda>x. bindE (literal x) (\<lambda>c. Inr (c = LITERAL_YES))) items = Inr True"
    using assms by (simp add: py_all_eq_True)
  then have "seq_expr items name = Inr (Some (PyStr name # map PyTuple ks))"
    using ks(2) by (simp add: seq_expr.simps key_obj_Some)
  then show ?thesis using ks(1) by blast
qed

lemma min_not_no:
  assumes "literal l = Inr a" "literal r = Inr b" "min a b \<noteq> LITERAL_NO"
  shows "a \<noteq> LITERAL_NO \<and> b \<noteq> LITERAL_NO"
  using assms literal_nonneg [OF assms(1)] literal_nonneg [OF assms(2)]
  by (auto simp: min_def split: if_splits)

lemma chain_not_no:
  assumes "literal (ComparisonExpr ops operands) = Inr c" "c \<noteq> LITERAL_NO"
  shows "\<forall>x\<in>set operands. \<exists>cx. literal x = Inr cx \<and> cx \<noteq> LITERAL_NO"
proof
  fix x assume x: "x \<in> set operands"
  obtain cs where cs: "list_all2 (\<lambda>y c. literal y = Inr c) operands cs"
    using assms(1) by (auto simp: py_tuple_eq_Inr)
  have ret: "\<forall>y\<in>set operands. \<exists>c. literal y = Inr c"
    using list_all2_returns [OF cs] by blast
  then obtain cx where cx: "literal x = Inr cx" using x by blast
  have "cx \<noteq> LITERAL_NO"
  proof
    assume "cx = LITERAL_NO"
    then have "literal x = Inr LITERAL_NO" using cx by simp
    from comparison_no [OF x this ret, of ops] assms show False
      by (simp del: literal.simps)
  qed
  then show "\<exists>cx. literal x = Inr cx \<and> cx \<noteq> LITERAL_NO" using cx by blast
qed

lemma key_roundtrip:
  "literal e = Inr c \<Longrightarrow> c \<noteq> LITERAL_NO \<Longrightarrow> literal_hash e = Inr (Some k) \<Longrightarrow>
     expr_of_obj (PyTuple k) = key_form e"
proof (induction e arbitrary: c k)
  case (NameExpr node)
  then show ?case
    by (cases node rule: visit_name_expr.cases)
       (auto simp: decode_literal decode_var [of "Some n" for n, simplified]
          decode_var [of None, simplified] split: option.splits if_splits)
next
  case (StarExpr e)
  then have lit: "literal e = Inr c" by simp
  obtain kx where kx: "literal_hash e = Inr (Some kx)"
    using literal_not_no_hash_present [OF lit StarExpr.prems(2)] by blast
  have "expr_of_obj (PyTuple kx) = key_form e"
    using StarExpr.IH [OF lit StarExpr.prems(2) kx] .
  then show ?case using StarExpr.prems(3) kx by (auto simp: decode_star)
next
  case (MemberExpr e name)
  then have lit: "literal e = Inr c" by simp
  obtain kx where kx: "literal_hash e = Inr (Some kx)"
    using literal_not_no_hash_present [OF lit MemberExpr.prems(2)] by blast
  have "expr_of_obj (PyTuple kx) = key_form e"
    using MemberExpr.IH [OF lit MemberExpr.prems(2) kx] .
  then show ?case using MemberExpr.prems(3) kx by (auto simp: decode_member)
next
  case (UnaryExpr op e)
  then have lit: "literal e = Inr c" by simp
  obtain kx where kx: "literal_hash e = Inr (Some kx)"
    using literal_not_no_hash_present [OF lit UnaryExpr.prems(2)] by blast
  have "expr_of_obj (PyTuple kx) = key_form e"
    using UnaryExpr.IH [OF lit UnaryExpr.prems(2) kx] .
  then show ?case using UnaryExpr.prems(3) kx by (auto simp: decode_unary)
next
  case (AssignmentExpr target val)
  then show ?case by simp
next
  case (OpExpr op l r)
  then obtain a b where ab: "literal l = Inr a" "literal r = Inr b" "c = min a b" by auto
  have nz: "a \<noteq> LITERAL_NO" "b \<noteq> LITERAL_NO"
    using min_not_no [OF ab(1,2)] ab(3) OpExpr.prems(2) by auto
  obtain kl where kl: "literal_hash l = Inr (Some kl)"
    using literal_not_no_hash_present [OF ab(1) nz(1)] by blast
  obtain kr where kr: "literal_hash r = Inr (Some kr)"
    using literal_not_no_hash_present [OF ab(2) nz(2)] by blast
  have dec: "expr_of_obj (PyTuple kl) = key_form l" "expr_of_obj (PyTuple kr) = key_form r"
    using OpExpr.IH(1) [OF ab(1) nz(1) kl] OpExpr.IH(2) [OF ab(2) nz(2) kr] by auto
  have "k = [PyStr ''Binary'', PyStr op, PyTuple kl, PyTuple kr]"
    using OpExpr.prems(3) kl kr by simp
  then show ?case using dec by (simp add: decode_binary)
next
  case (IndexExpr base index)
  then have i: "literal index = Inr LITERAL_YES" and b: "literal base = Inr c"
    by (auto split: if_splits)
  have yes: "LITERAL_YES \<noteq> LITERAL_NO" by simp
  obtain kb where kb: "literal_hash base = Inr (Some kb)"
    using literal_not_no_hash_present [OF b IndexExpr.prems(2)] by blast
  obtain ki where ki: "literal_hash index = Inr (Some ki)"
    using literal_not_no_hash_present [OF i yes] by blast
  have dec: "expr_of_obj (PyTuple kb) = key_form base"
      "expr_of_obj (PyTuple ki) = key_form index"
    using IndexExpr.IH(1) [OF b IndexExpr.prems(2) kb] IndexExpr.IH(2) [OF i yes ki] by auto
  have "k = [PyStr ''Index'', PyTuple kb, PyTuple ki]"
    using IndexExpr.prems(3) i kb ki by simp
  then show ?case using dec by (simp add: decode_index)
next
  case (ComparisonExpr ops operands)
  have nz: "\<forall>x\<in>set operands. \<exists>cx. literal x = Inr cx \<and> cx \<noteq> LITERAL_NO"
    using chain_not_no [OF ComparisonExpr.prems(1,2)] .
  then have "\<forall>x\<in>set operands. \<exists>kx. literal_hash x = Inr (Some kx)"
    using literal_not_no_hash_present by blast
  from py_tuple_present [OF this] obtain ks where
    ks: "list_all2 (\<lambda>x k. literal_hash x = Inr (Some k)) operands ks"
        "py_tuple literal_hash operands = Inr (map Some ks)"
    by blast
  have "\<forall>x\<in>set operands. \<forall>k. literal_hash x = Inr (Some k) \<longrightarrow>
      expr_of_obj (PyTuple k) = key_form x"
    using ComparisonExpr.IH nz by blast
  from decode_children [OF ks(1) this]
  have dec: "map expr_of_obj (map PyTuple ks) = map key_form operands" .
  have k: "k = PyStr ''Comparison'' # map PyStr ops @ map PyTuple ks"
    using ComparisonExpr.prems(3) ks(2) by (simp add: key_obj_Some del: map_map)
  show ?case unfolding k decode_comparison dec by simp
next
  case (ListExpr items)
  then have h: "seq_expr items ''List'' = Inr (Some k)" by simp
  have yes: "\<forall>x\<in>set items. literal x = Inr LITERAL_YES" using seq_expr_some_yes [OF h] .
  from seq_expr_present [OF yes, of "''List''"] obtain ks where
    ks: "list_all2 (\<lambda>x k. literal_hash x = Inr (Some k)) items ks"
        "seq_expr items ''List'' = Inr (Some (PyStr ''List'' # map PyTuple ks))"
    by blast
  have "\<forall>x\<in>set items. \<forall>k. literal_hash x = Inr (Some k) \<longrightarrow>
      expr_of_obj (PyTuple k) = key_form x"
    using ListExpr.IH yes by (metis literal_consts(2))
  from decode_children [OF ks(1) this]
  have dec: "map expr_of_obj (map PyTuple ks) = map key_form items" .
  have k: "k = PyStr ''List'' # map PyTuple ks" using h ks(2) by simp
  show ?case unfolding k decode_seq dec by simp
next
  case (TupleExpr items)
  then have h: "seq_expr items ''Tuple'' = Inr (Some k)" by simp
  have yes: "\<forall>x\<in>set items. literal x = Inr LITERAL_YES" using seq_expr_some_yes [OF h] .
  from seq_expr_present [OF yes, of "''Tuple''"] obtain ks where
    ks: "list_all2 (\<lambda>x k. literal_hash x = Inr (Some k)) items ks"
        "seq_expr items ''Tuple'' = Inr (Some (PyStr ''Tuple'' # map PyTuple ks))"
    by blast
  have "\<forall>x\<in>set items. \<forall>k. literal_hash x = Inr (Some k) \<longrightarrow>
      expr_of_obj (PyTuple k) = key_form x"
    using TupleExpr.IH yes by (metis literal_consts(2))
  from decode_children [OF ks(1) this]
  have dec: "map expr_of_obj (map PyTuple ks) = map key_form items" .
  have k: "k = PyStr ''Tuple'' # map PyTuple ks" using h ks(2) by simp
  show ?case unfolding k decode_seq dec by simp
next
  case (SetExpr items)
  then have h: "seq_expr items ''Set'' = Inr (Some k)" by simp
  have yes: "\<forall>x\<in>set items. literal x = Inr LITERAL_YES" using seq_expr_some_yes [OF h] .
  from seq_expr_present [OF yes, of "''Set''"] obtain ks where
    ks: "list_all2 (\<lambda>x k. literal_hash x = Inr (Some k)) items ks"
        "seq_expr items ''Set'' = Inr (Some (PyStr ''Set'' # map PyTuple ks))"
    by blast
  have "\<forall>x\<in>set items. \<forall>k. literal_hash x = Inr (Some k) \<longrightarrow>
      expr_of_obj (PyTuple k) = key_form x"
    using SetExpr.IH yes by (metis literal_consts(2))
  from decode_children [OF ks(1) this]
  have dec: "map expr_of_obj (map PyTuple ks) = map key_form items" .
  have k: "k = PyStr ''Set'' # map PyTuple ks" using h ks(2) by simp
  show ?case unfolding k decode_seq dec by simp
next
  case (DictExpr items)
  let ?R = "\<lambda>(a, b) p. \<exists>k hk hb. a = Some k \<and>
                   literal_hash k = Inr (Some hk) \<and> literal_hash b = Inr (Some hb) \<and>
                   p = PyTuple [PyTuple hk, PyTuple hb]"
  have yes: "\<forall>(a, b)\<in>set items.
      \<exists>key. a = Some key \<and> literal key = Inr LITERAL_YES \<and> literal b = Inr LITERAL_YES"
    using dict_some_yes [OF DictExpr.prems(3)] .
  from dict_present [OF yes] obtain ps where
    ps: "list_all2 ?R items ps" "literal_hash (DictExpr items) = Inr (Some (PyStr ''Dict'' # ps))"
    by blast
  have k: "k = PyStr ''Dict'' # ps" using ps(2) DictExpr.prems(3) by simp
  have ny: "LITERAL_YES \<noteq> LITERAL_NO" by simp
  have item: "pair_of (expr_of_obj p) = (map_option key_form a, key_form b)"
    if m: "(a, b) \<in> set items" and r: "?R (a, b) p" for a b p
  proof -
    obtain key hk hb where p: "a = Some key" "literal_hash key = Inr (Some hk)"
        "literal_hash b = Inr (Some hb)" "p = PyTuple [PyTuple hk, PyTuple hb]"
      using r by auto
    have lit: "literal key = Inr LITERAL_YES" "literal b = Inr LITERAL_YES"
      using yes m p(1) by auto
    have mem: "key \<in> set_option a" "a \<in> Basic_BNFs.fsts (a, b)" "b \<in> Basic_BNFs.snds (a, b)"
      using p(1) by simp_all
    have "expr_of_obj (PyTuple hk) = key_form key"
      using DictExpr.IH(1) [OF m mem(2) mem(1) lit(1) ny p(2)] .
    moreover have "expr_of_obj (PyTuple hb) = key_form b"
      using DictExpr.IH(2) [OF m mem(3) lit(2) ny p(3)] .
    ultimately show ?thesis using p(1,4) by (simp add: decode_pair)
  qed
  have "map pair_of (map expr_of_obj ps) =
      map (\<lambda>(a, b). (map_option key_form a, key_form b)) items"
    using ps(1) item
  proof (induction items ps rule: list_all2_induct)
    case Nil
    show ?case by simp
  next
    case (Cons x xs p ps)
    obtain a b where ab: "x = (a, b)" by (cases x)
    have "pair_of (expr_of_obj p) = (map_option key_form a, key_form b)"
      using Cons.hyps(1) Cons.prems [of a b p] ab by simp
    moreover have "map pair_of (map expr_of_obj ps) =
        map (\<lambda>(a, b). (map_option key_form a, key_form b)) xs"
      using Cons.IH Cons.prems by simp
    ultimately show ?case using ab by simp
  qed
  then show ?case unfolding k decode_dict by simp
next
  case (OtherExpr kind es)
  then show ?case by simp
qed (auto simp: decode_literal)

lemma key_form_numeric: "key_form (numeric_form e) = key_form e"
proof (induction e)
  case (DictExpr items)
  have "(\<lambda>(a, b). (map_option key_form a, key_form b))
         ((\<lambda>(a, b). (map_option numeric_form a, numeric_form b)) x) =
        (\<lambda>(a, b). (map_option key_form a, key_form b)) x"
    if "x \<in> set items" for x
  proof -
    obtain a b where ab: "x = (a, b)" by (cases x)
    have "key_form (numeric_form b) = key_form b"
      using DictExpr.IH(2) [of x b] that ab by simp
    moreover have "map_option key_form (map_option numeric_form a) = map_option key_form a"
    proof (cases a)
      case None
      then show ?thesis by simp
    next
      case (Some k)
      then show ?thesis using DictExpr.IH(1) [of x a k] that ab by simp
    qed
    ultimately show ?thesis using ab by simp
  qed
  then show ?case by (simp add: comp_def)
qed (simp_all cong: map_cong)

section \<open>Final names\<close>

text \<open>
  C10: a name resolved to a final variable with a recorded value \<open>v\<close> hashes to the key
  \<open>("Literal", v)\<close>, which is the key of each scalar literal expression of value \<open>v\<close>,
  and classifies as \<open>LITERAL_YES\<close>. So a name and a literal expression, which are
  different expressions, can have the same key.
\<close>

theorem final_name_hashes_as_literal:
  "is_final x \<Longrightarrow> final_value x = Some v \<Longrightarrow>
     literal_hash (NameExpr (Some (Var x))) = Inr (Some [PyStr ''Literal'', PyVal v]) \<and>
     literal_hash (NameExpr (Some (Var x))) = literal_hash (IntExpr v) \<and>
     literal_hash (NameExpr (Some (Var x))) = literal_hash (FloatExpr v) \<and>
     literal_hash (NameExpr (Some (Var x))) = literal_hash (ComplexExpr v) \<and>
     literal_hash (NameExpr (Some (Var x))) = literal_hash (StrExpr v) \<and>
     literal_hash (NameExpr (Some (Var x))) = literal_hash (BytesExpr v) \<and>
     literal (NameExpr (Some (Var x))) = Inr LITERAL_YES \<and>
     NameExpr (Some (Var x)) \<noteq> IntExpr v"
  by simp

theorem final_name_hashes_as_literal_witness:
  "is_final final_three \<and> final_value final_three = Some 3 \<and>
   literal_hash (NameExpr (Some (Var final_three))) =
     Inr (Some [PyStr ''Literal'', PyVal 3]) \<and>
   literal_hash (NameExpr (Some (Var final_three))) = literal_hash (IntExpr 3) \<and>
   literal (NameExpr (Some (Var final_three))) = Inr LITERAL_YES"
  using final_name_hashes_as_literal [where x = final_three and v = 3]
  by simp

section \<open>Index expressions\<close>

text \<open>
  C4: for an index expression \<open>base[index]\<close>, if the index classifies as \<open>LITERAL_YES\<close>
  then the hash is the key \<open>("Index", hash(base), hash(index))\<close>, in which the hash of
  the index is a present key, and the classification is that of the base; if the index
  classifies as anything else, the hash is absent and the classification is
  \<open>LITERAL_NO\<close>.
\<close>

theorem index_gating:
  "(literal index = Inr LITERAL_YES \<longrightarrow> literal_hash base = Inr hb \<longrightarrow>
      (\<exists>ki. literal_hash index = Inr (Some ki) \<and>
         literal_hash (IndexExpr base index) =
           Inr (Some [PyStr ''Index'', key_obj hb, PyTuple ki])) \<and>
      literal (IndexExpr base index) = literal base) \<and>
   (literal index = Inr c \<longrightarrow> c \<noteq> LITERAL_YES \<longrightarrow>
      literal_hash (IndexExpr base index) = Inr None \<and>
      literal (IndexExpr base index) = Inr LITERAL_NO)"
proof -
  have "\<exists>ki. literal_hash index = Inr (Some ki)" if "literal index = Inr LITERAL_YES"
    using literal_not_no_hash_present [OF that] by simp
  then show ?thesis by auto
qed

theorem index_gating_witness:
  "literal (IntExpr (0::int)) = Inr LITERAL_YES \<and>
   literal_hash (NameExpr (Some (Var var_x))) = Inr (Some [PyStr ''Var'', PyNode (Var var_x)]) \<and>
   literal_hash (IndexExpr (NameExpr (Some (Var var_x))) (IntExpr 0)) =
     Inr (Some [PyStr ''Index'', PyTuple [PyStr ''Var'', PyNode (Var var_x)],
                PyTuple [PyStr ''Literal'', PyVal 0]]) \<and>
   literal (IndexExpr (NameExpr (Some (Var var_x))) (IntExpr 0)) = Inr LITERAL_TYPE \<and>
   literal call = Inr LITERAL_NO \<and> LITERAL_NO \<noteq> LITERAL_YES \<and>
   literal_hash (IndexExpr (NameExpr (Some (Var var_x))) call) = Inr None \<and>
   literal (IndexExpr (NameExpr (Some (Var var_x))) call) = Inr LITERAL_NO"
  using index_gating
    [where index = "IntExpr (0::int)" and base = "NameExpr (Some (Var var_x))"
       and hb = "Some [PyStr ''Var'', PyNode (Var var_x)]" and c = LITERAL_YES]
    index_gating
    [where index = call and base = "NameExpr (Some (Var var_x))"
       and hb = "Some [PyStr ''Var'', PyNode (Var var_x)]" and c = LITERAL_NO]
  by simp

section \<open>Absent sub-expressions\<close>

text \<open>
  C2, as stated: if a sub-expression of a star, member, unary, binary or comparison
  expression hashes to absent, the hash of the expression is absent. It fails: the call
  \<^verbatim>\<open>f()\<close> hashes to absent, and each of the five expressions built on it hashes to a
  present key that holds \<^verbatim>\<open>None\<close> in the place of the call.
\<close>

theorem absent_child_counterexample:
  "literal_hash call = Inr None \<and>
   literal_hash (StarExpr call) = Inr (Some [PyStr ''Star'', PyNone]) \<and>
   literal_hash (MemberExpr call ''m'') = Inr (Some [PyStr ''Member'', PyNone, PyStr ''m'']) \<and>
   literal_hash (UnaryExpr ''-'' call) = Inr (Some [PyStr ''Unary'', PyStr ''-'', PyNone]) \<and>
   literal_hash (OpExpr ''+'' call (IntExpr 1)) =
     Inr (Some [PyStr ''Binary'', PyStr ''+'', PyNone, PyTuple [PyStr ''Literal'', PyVal 1]]) \<and>
   literal_hash (ComparisonExpr [''<''] [IntExpr 1, call]) =
     Inr (Some [PyStr ''Comparison'', PyStr ''<'', PyTuple [PyStr ''Literal'', PyVal 1], PyNone])"
  by simp

text \<open>
  C2, amended: whenever the hashes of the sub-expressions return, the hash of a star,
  member, unary, binary or comparison expression is a present key that embeds each of
  them, the absent marker included. An absent sub-expression shows in the classification
  instead: if a sub-expression hashes to absent then the classification of the expression
  is \<open>LITERAL_NO\<close> (for a binary or comparison expression, provided that the
  classification of every operand returns).
\<close>

theorem absent_child_is_embedded:
  "(literal_hash e = Inr h \<longrightarrow>
      literal_hash (StarExpr e) = Inr (Some [PyStr ''Star'', key_obj h]) \<and>
      literal_hash (MemberExpr e name) = Inr (Some [PyStr ''Member'', key_obj h, PyStr name]) \<and>
      literal_hash (UnaryExpr op e) = Inr (Some [PyStr ''Unary'', PyStr op, key_obj h])) \<and>
   (literal_hash l = Inr hl \<longrightarrow> literal_hash r = Inr hr \<longrightarrow>
      literal_hash (OpExpr op l r) =
        Inr (Some [PyStr ''Binary'', PyStr op, key_obj hl, key_obj hr])) \<and>
   (py_tuple literal_hash operands = Inr hs \<longrightarrow>
      literal_hash (ComparisonExpr ops operands) =
        Inr (Some (PyStr ''Comparison'' # map PyStr ops @ map key_obj hs))) \<and>
   (literal_hash e = Inr None \<longrightarrow>
      literal (StarExpr e) = Inr LITERAL_NO \<and>
      literal (MemberExpr e name) = Inr LITERAL_NO \<and>
      literal (UnaryExpr op e) = Inr LITERAL_NO) \<and>
   ((literal_hash l = Inr None \<or> literal_hash r = Inr None) \<longrightarrow>
      literal l = Inr a \<longrightarrow> literal r = Inr b \<longrightarrow>
      literal (OpExpr op l r) = Inr LITERAL_NO) \<and>
   (x \<in> set operands \<longrightarrow> literal_hash x = Inr None \<longrightarrow>
      (\<forall>y\<in>set operands. \<exists>c. literal y = Inr c) \<longrightarrow>
      literal (ComparisonExpr ops operands) = Inr LITERAL_NO)"
proof -
  have op_no: "literal (OpExpr op l r) = Inr LITERAL_NO"
    if "literal_hash l = Inr None \<or> literal_hash r = Inr None"
      "literal l = Inr a" "literal r = Inr b"
  proof -
    have "a = LITERAL_NO \<or> b = LITERAL_NO"
      using that hash_absent_literal_no [of l] hash_absent_literal_no [of r] by auto
    moreover have "LITERAL_NO \<le> a" "LITERAL_NO \<le> b"
      using that literal_nonneg by auto
    ultimately have "min a b = LITERAL_NO" by (auto simp: min_def)
    then show ?thesis using that by simp
  qed
  have cmp_no: "literal (ComparisonExpr ops operands) = Inr LITERAL_NO"
    if "x \<in> set operands" "literal_hash x = Inr None"
       "\<forall>y\<in>set operands. \<exists>c. literal y = Inr c"
    using comparison_no [OF that(1) hash_absent_literal_no [OF that(2)] that(3)] .
  show ?thesis
    using op_no cmp_no by (simp add: hash_absent_literal_no)
qed

theorem absent_child_is_embedded_witness:
  "literal_hash call = Inr None \<and>
   literal_hash (IntExpr 1) = Inr (Some [PyStr ''Literal'', PyVal (1::int)]) \<and>
   py_tuple literal_hash [IntExpr 1, call] = Inr [Some [PyStr ''Literal'', PyVal 1], None] \<and>
   literal call = Inr LITERAL_NO \<and> literal (IntExpr (1::int)) = Inr LITERAL_YES \<and>
   call \<in> set [IntExpr 1, call] \<and>
   literal_hash (StarExpr call) = Inr (Some [PyStr ''Star'', PyNone]) \<and>
   literal_hash (MemberExpr call ''m'') = Inr (Some [PyStr ''Member'', PyNone, PyStr ''m'']) \<and>
   literal_hash (UnaryExpr ''-'' call) = Inr (Some [PyStr ''Unary'', PyStr ''-'', PyNone]) \<and>
   literal_hash (OpExpr ''-'' call (IntExpr 1)) =
     Inr (Some [PyStr ''Binary'', PyStr ''-'', PyNone, PyTuple [PyStr ''Literal'', PyVal 1]]) \<and>
   literal_hash (ComparisonExpr [''<''] [IntExpr 1, call]) =
     Inr (Some [PyStr ''Comparison'', PyStr ''<'', PyTuple [PyStr ''Literal'', PyVal 1], PyNone]) \<and>
   literal (StarExpr call) = Inr LITERAL_NO \<and>
   literal (MemberExpr call ''m'') = Inr LITERAL_NO \<and>
   literal (UnaryExpr ''-'' call) = Inr LITERAL_NO \<and>
   literal (OpExpr ''-'' call (IntExpr 1)) = Inr LITERAL_NO \<and>
   literal (ComparisonExpr [''<''] [IntExpr 1, call]) = Inr LITERAL_NO"
  using absent_child_is_embedded
    [where e = call and h = None and name = "''m''" and op = "''-''"
       and l = call and r = "IntExpr 1" and hl = None
       and hr = "Some [PyStr ''Literal'', PyVal 1]"
       and operands = "[IntExpr 1, call]" and ops = "[''<'']"
       and hs = "[Some [PyStr ''Literal'', PyVal 1], None]"
       and a = LITERAL_NO and b = LITERAL_YES and x = call]
  by simp

section \<open>The expression of the module's note\<close>

text \<open>
  C3, as stated: for \<^verbatim>\<open>x[(i, j+1)].m\<close> with plain variables \<open>x\<close>, \<open>i\<close>, \<open>j\<close>, the
  classification is \<open>LITERAL_TYPE\<close> and the hash is the key
  \<open>Member(Index(Var(x), Tuple(Var(i), Binary('+', Var(j), Literal(1)))), "m")\<close>. Both
  parts fail.
\<close>

theorem typical_literal_counterexample:
  "literal (typical_literal var_x var_i var_j 1) \<noteq> Inr LITERAL_TYPE \<and>
   literal_hash (typical_literal var_x var_i var_j 1) \<noteq>
     Inr (Some [PyStr ''Member'',
       PyTuple [PyStr ''Index'', PyTuple [PyStr ''Var'', PyNode (Var var_x)],
         PyTuple [PyStr ''Tuple'', PyTuple [PyStr ''Var'', PyNode (Var var_i)],
           PyTuple [PyStr ''Binary'', PyStr ''+'', PyTuple [PyStr ''Var'', PyNode (Var var_j)],
             PyTuple [PyStr ''Literal'', PyVal 1]]]],
       PyStr ''m''])"
  by (simp add: typical_literal_def seq_expr.simps)

text \<open>
  C3, amended: when \<open>i\<close> is not a final variable with a recorded value, the tuple
  \<^verbatim>\<open>(i, j+1)\<close> has an element that does not classify as \<open>LITERAL_YES\<close>, so the tuple
  and the index expression hash to absent: the classification of \<^verbatim>\<open>x[(i, j+1)].m\<close> is
  \<open>LITERAL_NO\<close> and its hash is the key \<open>("Member", None, "m")\<close>.
\<close>

theorem typical_literal_is_gated:
  assumes "\<not> (is_final i \<and> final_value i \<noteq> None)"
  shows "literal (typical_literal x i j one) = Inr LITERAL_NO \<and>
     literal_hash (typical_literal x i j one) =
       Inr (Some [PyStr ''Member'', PyNone, PyStr ''m''])"
proof -
  let ?items = "[NameExpr (Some (Var i)), OpExpr ''+'' (NameExpr (Some (Var j))) (IntExpr one)]"
  have i: "literal (NameExpr (Some (Var i))) = Inr LITERAL_TYPE"
    using assms by simp
  have "py_all (\<lambda>x. bindE (literal x) (\<lambda>c. Inr (c = LITERAL_YES))) ?items = Inr False"
    by (simp only: py_all.simps i bindE.simps literal_consts if_False)
  then have tuple: "literal_hash (TupleExpr ?items) = Inr None"
    by (simp only: literal_hash.simps seq_expr.simps bindE.simps if_False)
  then have "literal (TupleExpr ?items) = Inr LITERAL_NO"
    by (simp only: literal.simps bindE.simps truthy.simps if_False)
  then have index:
    "literal (IndexExpr (NameExpr (Some (Var x))) (TupleExpr ?items)) = Inr LITERAL_NO"
    "literal_hash (IndexExpr (NameExpr (Some (Var x))) (TupleExpr ?items)) = Inr None"
    by (simp_all only: literal.simps literal_hash.simps bindE.simps literal_consts if_False)
  show ?thesis
    unfolding typical_literal_def
    by (simp only: literal.simps(3) literal_hash.simps(8) index bindE.simps key_obj.simps simp_thms)
qed

theorem typical_literal_is_gated_witness:
  "\<not> (is_final var_i \<and> final_value var_i \<noteq> None) \<and>
   literal (typical_literal var_x var_i var_j 1) = Inr LITERAL_NO \<and>
   literal_hash (typical_literal var_x var_i var_j 1) =
     Inr (Some [PyStr ''Member'', PyNone, PyStr ''m''])"
  using typical_literal_is_gated [where i = var_i and x = var_x and j = var_j and one = 1]
  by simp

section \<open>Extracting the variable of a key\<close>

text \<open>
  C8, as stated: on the key of a bare name, \<^verbatim>\<open>extract_var_from_literal_hash\<close> returns
  the variable; on the key of any other expression it returns nothing. It fails both
  ways: the key of a name resolved to a final variable with a recorded value yields
  nothing, and the key of the assignment expression \<^verbatim>\<open>x := 1\<close>, which is the key of
  its target, yields \<open>x\<close>.
\<close>

theorem extract_var_counterexample:
  "literal_hash (NameExpr (Some (Var final_three))) = Inr (Some [PyStr ''Literal'', PyVal 3]) \<and>
   extract_var_from_literal_hash [PyStr ''Literal'', PyVal (3::int)] = None \<and>
   literal_hash (AssignmentExpr (NameExpr (Some (Var var_x))) (IntExpr 1)) =
     Inr (Some [PyStr ''Var'', PyNode (Var var_x)]) \<and>
   extract_var_from_literal_hash [PyStr ''Var'', PyNode (Var var_x)] = Some var_x"
  by (simp add: extract_var_from_literal_hash_def)

text \<open>
  C8, amended: on a key produced by \<^verbatim>\<open>literal_hash\<close> for an expression \<open>e\<close>,
  \<^verbatim>\<open>extract_var_from_literal_hash\<close> returns the \<^verbatim>\<open>Var\<close> node \<open>v\<close> exactly when
  \<open>e\<close>, or the target of \<open>e\<close> when \<open>e\<close> is an assignment expression, is a name
  resolved to \<open>v\<close> and \<open>v\<close> is not a final variable with a recorded value; in every
  other case it returns nothing.
\<close>

theorem extract_var_of_hash:
  "literal_hash e = Inr (Some k) \<Longrightarrow>
     extract_var_from_literal_hash k =
       (case walrus_target e of
          NameExpr (Some (Var v)) \<Rightarrow>
            if is_final v \<and> final_value v \<noteq> None then None else Some v
        | _ \<Rightarrow> None)"
proof (induction e arbitrary: k)
  case (NameExpr node)
  then show ?case
    by (cases node rule: visit_name_expr.cases)
       (auto simp: extract_var_from_literal_hash_def split: option.splits if_splits)
next
  case (IndexExpr base index)
  then show ?case by (auto simp: extract_var_from_literal_hash_def split: if_splits)
next
  case (AssignmentExpr target val)
  then show ?case by simp
qed (auto simp: extract_var_from_literal_hash_def seq_expr.simps literal_hash_DictExpr
       split: if_splits)

theorem extract_var_of_hash_witness:
  "literal_hash (NameExpr (Some (Var var_x))) = Inr (Some [PyStr ''Var'', PyNode (Var var_x)]) \<and>
   extract_var_from_literal_hash [PyStr ''Var'', PyNode (Var var_x)] = Some var_x"
  using extract_var_of_hash
    [where e = "NameExpr (Some (Var var_x))" and k = "[PyStr ''Var'', PyNode (Var var_x)]"]
  by simp

section \<open>List, tuple and set expressions\<close>

text \<open>
  C5: the hash of a list, tuple or set expression is a present key if and only if every
  item classifies as \<open>LITERAL_YES\<close>. The key is then the tag \<open>List\<close>, \<open>Tuple\<close> or
  \<open>Set\<close> followed by the keys of the items, in order, each of them present. If the
  classification of every item returns and one of them is not \<open>LITERAL_YES\<close>, the hash
  is absent.
\<close>

theorem collection_gating:
  "((\<forall>x\<in>set items. literal x = Inr LITERAL_YES) \<longrightarrow>
      (\<exists>ks. list_all2 (\<lambda>x k. literal_hash x = Inr (Some k)) items ks \<and>
         literal_hash (ListExpr items) = Inr (Some (PyStr ''List'' # map PyTuple ks)) \<and>
         literal_hash (TupleExpr items) = Inr (Some (PyStr ''Tuple'' # map PyTuple ks)) \<and>
         literal_hash (SetExpr items) = Inr (Some (PyStr ''Set'' # map PyTuple ks)))) \<and>
   ((\<exists>k. literal_hash (ListExpr items) = Inr (Some k)) \<longleftrightarrow>
      (\<forall>x\<in>set items. literal x = Inr LITERAL_YES)) \<and>
   ((\<exists>k. literal_hash (TupleExpr items) = Inr (Some k)) \<longleftrightarrow>
      (\<forall>x\<in>set items. literal x = Inr LITERAL_YES)) \<and>
   ((\<exists>k. literal_hash (SetExpr items) = Inr (Some k)) \<longleftrightarrow>
      (\<forall>x\<in>set items. literal x = Inr LITERAL_YES)) \<and>
   ((\<forall>x\<in>set items. \<exists>c. literal x = Inr c) \<longrightarrow>
    (\<exists>x\<in>set items. literal x \<noteq> Inr LITERAL_YES) \<longrightarrow>
      literal_hash (ListExpr items) = Inr None \<and>
      literal_hash (TupleExpr items) = Inr None \<and>
      literal_hash (SetExpr items) = Inr None)"
proof -
  have present: "\<exists>ks. list_all2 (\<lambda>x k. literal_hash x = Inr (Some k)) items ks \<and>
      (\<forall>name. seq_expr items name = Inr (Some (PyStr name # map PyTuple ks)))"
    if yes: "\<forall>x\<in>set items. literal x = Inr LITERAL_YES"
  proof -
    have "\<forall>x\<in>set items. \<exists>k. literal_hash x = Inr (Some k)"
      using yes literal_not_no_hash_present by (metis literal_consts(2))
    from py_tuple_present [OF this] obtain ks where
      ks: "list_all2 (\<lambda>x k. literal_hash x = Inr (Some k)) items ks"
          "py_tuple literal_hash items = Inr (map Some ks)"
      by blast
    have "py_all (\<lambda>x. bindE (literal x) (\<lambda>c. Inr (c = LITERAL_YES))) items = Inr True"
      using yes by (simp add: py_all_eq_True)
    then have "\<forall>name. seq_expr items name = Inr (Some (PyStr name # map PyTuple ks))"
      using ks(2) by (simp add: seq_expr.simps key_obj_Some)
    then show ?thesis using ks(1) by blast
  qed
  have only_if: "\<forall>x\<in>set items. literal x = Inr LITERAL_YES"
    if "\<exists>k. seq_expr items name = Inr (Some k)" for name
    using that seq_expr_some_yes by blast
  have absent: "seq_expr items name = Inr None"
    if "\<forall>x\<in>set items. \<exists>c. literal x = Inr c"
       "\<exists>x\<in>set items. literal x \<noteq> Inr LITERAL_YES" for name
    using seq_expr_absent [OF that] .
  have c1: "(\<forall>x\<in>set items. literal x = Inr LITERAL_YES) \<longrightarrow>
      (\<exists>ks. list_all2 (\<lambda>x k. literal_hash x = Inr (Some k)) items ks \<and>
         literal_hash (ListExpr items) = Inr (Some (PyStr ''List'' # map PyTuple ks)) \<and>
         literal_hash (TupleExpr items) = Inr (Some (PyStr ''Tuple'' # map PyTuple ks)) \<and>
         literal_hash (SetExpr items) = Inr (Some (PyStr ''Set'' # map PyTuple ks)))"
    using present by (simp only: literal_hash.simps) blast
  have c2: "(\<exists>k. literal_hash (ListExpr items) = Inr (Some k)) \<longleftrightarrow>
      (\<forall>x\<in>set items. literal x = Inr LITERAL_YES)"
    using present only_if [of "''List''"] by (simp only: literal_hash.simps) blast
  have c3: "(\<exists>k. literal_hash (TupleExpr items) = Inr (Some k)) \<longleftrightarrow>
      (\<forall>x\<in>set items. literal x = Inr LITERAL_YES)"
    using present only_if [of "''Tuple''"] by (simp only: literal_hash.simps) blast
  have c4: "(\<exists>k. literal_hash (SetExpr items) = Inr (Some k)) \<longleftrightarrow>
      (\<forall>x\<in>set items. literal x = Inr LITERAL_YES)"
    using present only_if [of "''Set''"] by (simp only: literal_hash.simps) blast
  have c5: "(\<forall>x\<in>set items. \<exists>c. literal x = Inr c) \<longrightarrow>
    (\<exists>x\<in>set items. literal x \<noteq> Inr LITERAL_YES) \<longrightarrow>
      literal_hash (ListExpr items) = Inr None \<and>
      literal_hash (TupleExpr items) = Inr None \<and>
      literal_hash (SetExpr items) = Inr None"
    using absent by (simp only: literal_hash.simps) blast
  show ?thesis using c1 c2 c3 c4 c5 by (intro conjI)
qed

theorem collection_gating_witness:
  "literal (IntExpr (1::int)) = Inr LITERAL_YES \<and> literal (IntExpr (2::int)) = Inr LITERAL_YES \<and>
   literal_hash (ListExpr [IntExpr 1, IntExpr 2]) =
     Inr (Some [PyStr ''List'', PyTuple [PyStr ''Literal'', PyVal (1::int)],
                PyTuple [PyStr ''Literal'', PyVal 2]]) \<and>
   literal call = Inr LITERAL_NO \<and>
   literal_hash (ListExpr [IntExpr 1, IntExpr 2, call]) = Inr None \<and>
   literal_hash (TupleExpr [IntExpr 1, IntExpr 2, call]) = Inr None \<and>
   literal_hash (SetExpr [IntExpr 1, IntExpr 2, call]) = Inr None"
proof -
  have yes: "\<forall>x\<in>set [IntExpr (1::int), IntExpr 2]. literal x = Inr LITERAL_YES" by simp
  have ret: "\<forall>x\<in>set [IntExpr 1, IntExpr 2, call]. \<exists>c. literal x = Inr c" by simp
  have no: "\<exists>x\<in>set [IntExpr 1, IntExpr 2, call]. literal x \<noteq> Inr LITERAL_YES" by simp
  obtain ks where ks:
    "list_all2 (\<lambda>x k. literal_hash x = Inr (Some k)) [IntExpr (1::int), IntExpr 2] ks"
    "literal_hash (ListExpr [IntExpr (1::int), IntExpr 2]) =
       Inr (Some (PyStr ''List'' # map PyTuple ks))"
    using collection_gating [where items = "[IntExpr (1::int), IntExpr 2]"] yes by blast
  have "ks = [[PyStr ''Literal'', PyVal 1], [PyStr ''Literal'', PyVal 2]]"
    using ks(1) by (auto simp: list_all2_Cons1)
  then have present: "literal_hash (ListExpr [IntExpr 1, IntExpr 2]) =
     Inr (Some [PyStr ''List'', PyTuple [PyStr ''Literal'', PyVal (1::int)],
                PyTuple [PyStr ''Literal'', PyVal 2]])"
    using ks(2) by simp
  have absent: "literal_hash (ListExpr [IntExpr 1, IntExpr 2, call]) = Inr None \<and>
      literal_hash (TupleExpr [IntExpr 1, IntExpr 2, call]) = Inr None \<and>
      literal_hash (SetExpr [IntExpr 1, IntExpr 2, call]) = Inr None"
    using collection_gating [where items = "[IntExpr 1, IntExpr 2, call]"] ret no by blast
  show ?thesis using present absent by simp
qed

section \<open>Comparison chains and binary operators\<close>

text \<open>
  C7: with \<open>LITERAL_NO < LITERAL_TYPE < LITERAL_YES\<close>, the classification of a
  comparison chain whose operands classify is the least of their classifications: it is
  the classification of one operand and is below that of every operand. The
  classification of a binary operator expression is the minimum of those of its two
  operands. A chain with a call among its operands classifies as \<open>LITERAL_NO\<close>.
\<close>

theorem classification_is_minimum:
  "(operands \<noteq> [] \<longrightarrow> (\<forall>y\<in>set operands. \<exists>c. literal y = Inr c) \<longrightarrow>
      (\<exists>m. literal (ComparisonExpr ops operands) = Inr m \<and>
           (\<exists>y\<in>set operands. literal y = Inr m) \<and>
           (\<forall>y\<in>set operands. \<forall>c. literal y = Inr c \<longrightarrow> m \<le> c))) \<and>
   (literal l = Inr a \<longrightarrow> literal r = Inr b \<longrightarrow> literal (OpExpr op l r) = Inr (min a b)) \<and>
   (OtherExpr CallExpr args \<in> set operands \<longrightarrow>
      (\<forall>y\<in>set operands. \<exists>c. literal y = Inr c) \<longrightarrow>
      literal (ComparisonExpr ops operands) = Inr LITERAL_NO) \<and>
   LITERAL_NO < LITERAL_TYPE \<and> LITERAL_TYPE < LITERAL_YES"
proof -
  have chain: "\<exists>m. literal (ComparisonExpr ops operands) = Inr m \<and>
           (\<exists>y\<in>set operands. literal y = Inr m) \<and>
           (\<forall>y\<in>set operands. \<forall>c. literal y = Inr c \<longrightarrow> m \<le> c)"
    if ne: "operands \<noteq> []" and ret: "\<forall>y\<in>set operands. \<exists>c. literal y = Inr c"
  proof -
    obtain cs where cs: "py_tuple literal operands = Inr cs"
      using py_tuple_returns [OF ret] by blast
    then have all2: "list_all2 (\<lambda>y c. literal y = Inr c) operands cs"
      by (simp add: py_tuple_eq_Inr)
    then have len: "length operands = length cs" by (rule list_all2_lengthD)
    then have cne: "cs \<noteq> []" using ne by auto
    have lit: "literal (ComparisonExpr ops operands) = Inr (Min (set cs))"
      using cs cne by (simp add: py_min_eq_Inr)
    have att: "\<exists>y\<in>set operands. literal y = Inr (Min (set cs))"
      using list_all2_Min_mem [OF all2 cne] .
    have low: "\<forall>y\<in>set operands. \<forall>c. literal y = Inr c \<longrightarrow> Min (set cs) \<le> c"
    proof (intro ballI allI impI)
      fix y c assume y: "y \<in> set operands" and c: "literal y = Inr c"
      obtain i where i: "i < length operands" "operands ! i = y"
        using y by (auto simp: in_set_conv_nth)
      have "literal (operands ! i) = Inr (cs ! i)"
        using all2 i(1) by (simp add: list_all2_conv_all_nth)
      then have "cs ! i = c" using i(2) c by simp
      then have "c \<in> set cs" using i(1) len by (metis nth_mem)
      then show "Min (set cs) \<le> c" by simp
    qed
    show ?thesis using lit att low by blast
  qed
  have mixed: "literal (ComparisonExpr ops operands) = Inr LITERAL_NO"
    if "OtherExpr CallExpr args \<in> set operands" "\<forall>y\<in>set operands. \<exists>c. literal y = Inr c"
    using comparison_no [OF that(1) _ that(2)] by simp
  show ?thesis using chain mixed by simp
qed

theorem classification_is_minimum_witness:
  "literal (IntExpr (1::int)) = Inr LITERAL_YES \<and>
   literal (NameExpr (Some (Var var_x))) = Inr LITERAL_TYPE \<and>
   literal call = Inr LITERAL_NO \<and>
   literal (ComparisonExpr [''<''] [IntExpr 1, NameExpr (Some (Var var_x))]) = Inr LITERAL_TYPE \<and>
   literal (OpExpr ''+'' (IntExpr 1) (NameExpr (Some (Var var_x)))) = Inr LITERAL_TYPE \<and>
   literal (ComparisonExpr [''<''] [IntExpr 1, call]) = Inr LITERAL_NO"
proof -
  have ret: "\<forall>y\<in>set [IntExpr 1, call]. \<exists>c. literal y = Inr c" by simp
  have mem: "call \<in> set [IntExpr 1, call]" by simp
  have no: "literal (ComparisonExpr [''<''] [IntExpr 1, call]) = Inr LITERAL_NO"
    using classification_is_minimum
      [where operands = "[IntExpr 1, call]" and args = "[]" and ops = "[''<'']"] ret mem
    by blast
  have bin: "literal (OpExpr ''+'' (IntExpr 1) (NameExpr (Some (Var var_x)))) =
      Inr (min LITERAL_YES LITERAL_TYPE)"
    using classification_is_minimum
      [where l = "IntExpr 1" and r = "NameExpr (Some (Var var_x))" and a = LITERAL_YES
         and b = LITERAL_TYPE and op = "''+''"]
    by simp
  have ret2: "\<forall>y\<in>set [IntExpr 1, NameExpr (Some (Var var_x))]. \<exists>c. literal y = Inr c"
    by simp
  obtain m where m:
    "literal (ComparisonExpr [''<''] [IntExpr 1, NameExpr (Some (Var var_x))]) = Inr m"
    "\<exists>y\<in>set [IntExpr 1, NameExpr (Some (Var var_x))]. literal y = Inr m"
    "\<forall>y\<in>set [IntExpr 1, NameExpr (Some (Var var_x))]. \<forall>c. literal y = Inr c \<longrightarrow> m \<le> c"
    using classification_is_minimum
      [where operands = "[IntExpr 1, NameExpr (Some (Var var_x))]" and ops = "[''<'']"] ret2
    by blast
  have "m = LITERAL_TYPE" using m(2,3) by (auto simp: LITERAL_TYPE_def LITERAL_YES_def)
  then show ?thesis using m(1) no bin
    by (simp add: min_def LITERAL_TYPE_def LITERAL_YES_def LITERAL_NO_def)
qed

section \<open>Dict expressions\<close>

text \<open>
  C6: the hash of a dict expression is a present key if and only if every item has a
  key, and the key and the value both classify as \<open>LITERAL_YES\<close>. The key is then the
  tag \<open>Dict\<close> followed by the pairs (key hash, value hash) of the items, in order, each
  hash present. If the classifications of the keys and values of the items that have a
  key return, and some item has no key (a \<^verbatim>\<open>**\<close> spread) or has a key or a value
  that does not classify as \<open>LITERAL_YES\<close>, the hash is absent.
\<close>

theorem mapping_gating:
  "((\<forall>(a, b)\<in>set items.
       \<exists>k. a = Some k \<and> literal k = Inr LITERAL_YES \<and> literal b = Inr LITERAL_YES) \<longrightarrow>
      (\<exists>ps. list_all2 (\<lambda>(a, b) p. \<exists>k hk hb. a = Some k \<and>
                literal_hash k = Inr (Some hk) \<and> literal_hash b = Inr (Some hb) \<and>
                p = PyTuple [PyTuple hk, PyTuple hb]) items ps \<and>
             literal_hash (DictExpr items) = Inr (Some (PyStr ''Dict'' # ps)))) \<and>
   ((\<exists>k. literal_hash (DictExpr items) = Inr (Some k)) \<longleftrightarrow>
      (\<forall>(a, b)\<in>set items.
         \<exists>k. a = Some k \<and> literal k = Inr LITERAL_YES \<and> literal b = Inr LITERAL_YES)) \<and>
   ((\<forall>(a, b)\<in>set items.
       \<forall>k. a = Some k \<longrightarrow> (\<exists>c. literal k = Inr c) \<and> (\<exists>c. literal b = Inr c)) \<longrightarrow>
    (\<exists>(a, b)\<in>set items.
       a = None \<or>
       (\<exists>k. a = Some k \<and> \<not> (literal k = Inr LITERAL_YES \<and> literal b = Inr LITERAL_YES))) \<longrightarrow>
      literal_hash (DictExpr items) = Inr None)"
proof -
  have "\<forall>(a, b)\<in>set items.
      \<exists>k. a = Some k \<and> literal k = Inr LITERAL_YES \<and> literal b = Inr LITERAL_YES"
    if "\<exists>k. literal_hash (DictExpr items) = Inr (Some k)"
    using that dict_some_yes by blast
  then show ?thesis
    using dict_present [of items] dict_absent [of items] by blast
qed

theorem mapping_gating_witness:
  "literal (StrExpr (1::int)) = Inr LITERAL_YES \<and> literal (IntExpr (2::int)) = Inr LITERAL_YES \<and>
   literal_hash (DictExpr [(Some (StrExpr (1::int)), IntExpr 2)]) =
     Inr (Some [PyStr ''Dict'',
                PyTuple [PyTuple [PyStr ''Literal'', PyVal 1],
                         PyTuple [PyStr ''Literal'', PyVal 2]]]) \<and>
   literal_hash (DictExpr [(Some (StrExpr (1::int)), IntExpr 2), (None, IntExpr 3)]) = Inr None \<and>
   literal call = Inr LITERAL_NO \<and>
   literal_hash (DictExpr [(Some (StrExpr 1), call)]) = Inr None"
proof -
  have yes: "\<forall>(a, b)\<in>set [(Some (StrExpr (1::int)), IntExpr 2)].
      \<exists>k. a = Some k \<and> literal k = Inr LITERAL_YES \<and> literal b = Inr LITERAL_YES"
    by simp
  obtain ps where ps:
    "list_all2 (\<lambda>(a, b) p. \<exists>k hk hb. a = Some k \<and>
        literal_hash k = Inr (Some hk) \<and> literal_hash b = Inr (Some hb) \<and>
        p = PyTuple [PyTuple hk, PyTuple hb]) [(Some (StrExpr (1::int)), IntExpr 2)] ps"
    "literal_hash (DictExpr [(Some (StrExpr (1::int)), IntExpr 2)]) =
       Inr (Some (PyStr ''Dict'' # ps))"
    using mapping_gating [where items = "[(Some (StrExpr (1::int)), IntExpr 2)]"] yes
    by blast
  have "ps = [PyTuple [PyTuple [PyStr ''Literal'', PyVal 1],
                       PyTuple [PyStr ''Literal'', PyVal 2]]]"
    using ps(1) by (auto simp: list_all2_Cons1)
  then have present: "literal_hash (DictExpr [(Some (StrExpr (1::int)), IntExpr 2)]) =
     Inr (Some [PyStr ''Dict'',
                PyTuple [PyTuple [PyStr ''Literal'', PyVal 1],
                         PyTuple [PyStr ''Literal'', PyVal 2]]])"
    using ps(2) by simp
  have spread: "literal_hash (DictExpr [(Some (StrExpr (1::int)), IntExpr 2), (None, IntExpr 3)])
      = Inr None"
    using mapping_gating
      [where items = "[(Some (StrExpr (1::int)), IntExpr 2), (None, IntExpr 3)]"]
    by simp
  have nonconst: "literal_hash (DictExpr [(Some (StrExpr 1), call)]) = Inr None"
    using mapping_gating [where items = "[(Some (StrExpr 1), call)]"]
    by simp
  show ?thesis using present spread nonconst by simp
qed

section \<open>Totality\<close>

text \<open>
  C9: \<^verbatim>\<open>literal\<close> and \<^verbatim>\<open>literal_hash\<close> are total over the expression grammar.
  Both terminate on every finite tree: their definition above is by well-founded
  recursion, every call descending into a sub-expression. On every expression of the
  grammar, where a comparison chain has operands, neither raises: \<^verbatim>\<open>literal\<close>
  returns one of the three classifications and \<^verbatim>\<open>literal_hash\<close> returns a key or
  absent. Every expression class has an equation of its own, and the classes without a
  rule classify as \<open>LITERAL_NO\<close> and hash to absent.
\<close>

theorem total_when_chains_nonempty:
  "(chains_nonempty e \<longrightarrow>
      (\<exists>c. literal e = Inr c \<and> (c = LITERAL_NO \<or> c = LITERAL_TYPE \<or> c = LITERAL_YES)) \<and>
      (\<exists>h. literal_hash e = Inr h)) \<and>
   literal (OtherExpr k es) = Inr LITERAL_NO \<and>
   literal_hash (OtherExpr k es) = Inr None"
proof -
  have "(\<exists>c. literal e = Inr c \<and> (c = LITERAL_NO \<or> c = LITERAL_TYPE \<or> c = LITERAL_YES)) \<and>
      (\<exists>h. literal_hash e = Inr h)" if wf: "chains_nonempty e"
  proof -
    obtain c where c: "literal e = Inr c" using literal_total [OF wf] by blast
    show ?thesis using c literal_range [OF c] literal_returns_hash_returns [OF c] by blast
  qed
  then show ?thesis by simp
qed

theorem total_when_chains_nonempty_witness:
  "chains_nonempty (ComparisonExpr [''<''] [IntExpr (1::int), call]) \<and>
   literal (ComparisonExpr [''<''] [IntExpr (1::int), call]) = Inr LITERAL_NO \<and>
   literal_hash (ComparisonExpr [''<''] [IntExpr (1::int), call]) =
     Inr (Some [PyStr ''Comparison'', PyStr ''<'', PyTuple [PyStr ''Literal'', PyVal 1], PyNone])"
proof -
  have wf: "chains_nonempty (ComparisonExpr [''<''] [IntExpr (1::int), call])" by simp
  obtain c where "literal (ComparisonExpr [''<''] [IntExpr (1::int), call]) = Inr c"
    using total_when_chains_nonempty
      [where e = "ComparisonExpr [''<''] [IntExpr (1::int), call]"] wf
    by blast
  then have "literal (ComparisonExpr [''<''] [IntExpr (1::int), call]) = Inr LITERAL_NO"
    by (simp add: min_def LITERAL_NO_def LITERAL_YES_def)
  then show ?thesis using wf by simp
qed

section \<open>Keys and syntactic identity\<close>

text \<open>
  C1, as stated: the hashes of two expressions are equal present keys if and only if the
  expressions are syntactically identical up to the kind of numerically equal constants.
  It fails from right to left: a name resolved to a final variable of value 3 and the
  literal 3, the assignment expression \<^verbatim>\<open>x := 1\<close> and the name \<open>x\<close>, the member
  accesses \<^verbatim>\<open>f().m\<close> and \<^verbatim>\<open>(lambda: ...).m\<close> have equal present keys and are
  different expressions.
\<close>

theorem key_equality_counterexample:
  "literal_hash (NameExpr (Some (Var final_three))) = Inr (Some [PyStr ''Literal'', PyVal 3]) \<and>
   literal_hash (IntExpr 3) = Inr (Some [PyStr ''Literal'', PyVal (3::int)]) \<and>
   numeric_form (NameExpr (Some (Var final_three))) \<noteq> numeric_form (IntExpr 3) \<and>
   literal_hash (AssignmentExpr (NameExpr (Some (Var var_x))) (IntExpr 1)) =
     Inr (Some [PyStr ''Var'', PyNode (Var var_x)]) \<and>
   literal_hash (NameExpr (Some (Var var_x))) = Inr (Some [PyStr ''Var'', PyNode (Var var_x)]) \<and>
   numeric_form (AssignmentExpr (NameExpr (Some (Var var_x))) (IntExpr 1)) \<noteq>
     numeric_form (NameExpr (Some (Var var_x))) \<and>
   literal_hash (MemberExpr call ''m'') = Inr (Some [PyStr ''Member'', PyNone, PyStr ''m'']) \<and>
   literal_hash (MemberExpr (OtherExpr LambdaExpr []) ''m'') =
     Inr (Some [PyStr ''Member'', PyNone, PyStr ''m'']) \<and>
   numeric_form (MemberExpr call ''m'') \<noteq> numeric_form (MemberExpr (OtherExpr LambdaExpr []) ''m'')"
  by simp

text \<open>
  C1, amended: two expressions that are syntactically identical up to the kind of their
  numeric constants have equal hashes. For two expressions that classify as anything but
  \<open>LITERAL_NO\<close>, both hashes are present keys, and the keys are equal if and only if the
  expressions have the same \<open>key_form\<close>: they are identical once every scalar literal
  is read as its value, every name resolved to a final variable with a recorded value is
  read as that value, and every assignment expression is read as its target.
\<close>

theorem key_equality:
  "(numeric_form e1 = numeric_form e2 \<longrightarrow> literal_hash e1 = literal_hash e2) \<and>
   (literal e1 = Inr c1 \<longrightarrow> c1 \<noteq> LITERAL_NO \<longrightarrow> literal e2 = Inr c2 \<longrightarrow> c2 \<noteq> LITERAL_NO \<longrightarrow>
     (\<exists>k1 k2. literal_hash e1 = Inr (Some k1) \<and> literal_hash e2 = Inr (Some k2) \<and>
        (k1 = k2 \<longleftrightarrow> key_form e1 = key_form e2)))"
proof (intro conjI impI)
  assume "numeric_form e1 = numeric_form e2"
  then have "key_form e1 = key_form e2"
    using key_form_numeric [of e1] key_form_numeric [of e2] by simp
  then show "literal_hash e1 = literal_hash e2"
    using key_form_same [of e1] key_form_same [of e2] by simp
next
  assume a: "literal e1 = Inr c1" "c1 \<noteq> LITERAL_NO" "literal e2 = Inr c2" "c2 \<noteq> LITERAL_NO"
  obtain k1 where k1: "literal_hash e1 = Inr (Some k1)"
    using literal_not_no_hash_present [OF a(1,2)] by blast
  obtain k2 where k2: "literal_hash e2 = Inr (Some k2)"
    using literal_not_no_hash_present [OF a(3,4)] by blast
  have d1: "expr_of_obj (PyTuple k1) = key_form e1" using key_roundtrip [OF a(1,2) k1] .
  have d2: "expr_of_obj (PyTuple k2) = key_form e2" using key_roundtrip [OF a(3,4) k2] .
  have "k1 = k2" if same: "key_form e1 = key_form e2"
  proof -
    have "literal_hash e1 = literal_hash (key_form e1)" using key_form_same [of e1] by simp
    also have "\<dots> = literal_hash e2" using same key_form_same [of e2] by simp
    finally show ?thesis using k1 k2 by simp
  qed
  moreover have "key_form e1 = key_form e2" if "k1 = k2"
    using that d1 d2 by simp
  ultimately show "\<exists>k1 k2. literal_hash e1 = Inr (Some k1) \<and> literal_hash e2 = Inr (Some k2) \<and>
        (k1 = k2 \<longleftrightarrow> key_form e1 = key_form e2)"
    using k1 k2 by blast
qed

theorem key_equality_witness:
  "numeric_form (IntExpr (3::int)) = numeric_form (FloatExpr 3) \<and>
   literal_hash (IntExpr (3::int)) = literal_hash (FloatExpr 3) \<and>
   literal (NameExpr (Some (Var var_x))) = Inr LITERAL_TYPE \<and>
   literal (NameExpr (Some (Var var_i))) = Inr LITERAL_TYPE \<and>
   LITERAL_TYPE \<noteq> LITERAL_NO \<and>
   key_form (NameExpr (Some (Var var_x))) \<noteq> key_form (NameExpr (Some (Var var_i))) \<and>
   literal_hash (NameExpr (Some (Var var_x))) \<noteq> literal_hash (NameExpr (Some (Var var_i)))"
proof -
  have num: "numeric_form (IntExpr (3::int)) = numeric_form (FloatExpr 3)" by simp
  have eq: "literal_hash (IntExpr (3::int)) = literal_hash (FloatExpr 3)"
    using key_equality [where ?e1.0 = "IntExpr (3::int)" and ?e2.0 = "FloatExpr 3"] num
    by blast
  have lit: "literal (NameExpr (Some (Var var_x))) = Inr LITERAL_TYPE"
    "literal (NameExpr (Some (Var var_i))) = Inr LITERAL_TYPE" "LITERAL_TYPE \<noteq> LITERAL_NO"
    by simp_all
  have kf: "key_form (NameExpr (Some (Var var_x))) \<noteq> key_form (NameExpr (Some (Var var_i)))"
    by simp
  obtain k1 k2 where k:
    "literal_hash (NameExpr (Some (Var var_x))) = Inr (Some k1)"
    "literal_hash (NameExpr (Some (Var var_i))) = Inr (Some k2)"
    "k1 = k2 \<longleftrightarrow>
       key_form (NameExpr (Some (Var var_x))) = key_form (NameExpr (Some (Var var_i)))"
    using key_equality
      [where ?e1.0 = "NameExpr (Some (Var var_x))" and ?e2.0 = "NameExpr (Some (Var var_i))"
         and ?c1.0 = LITERAL_TYPE and ?c2.0 = LITERAL_TYPE] lit
    by blast
  have "literal_hash (NameExpr (Some (Var var_x))) \<noteq> literal_hash (NameExpr (Some (Var var_i)))"
    using k kf by (simp del: literal_hash.simps key_form.simps)
  then show ?thesis using num eq lit kf by blast
qed

end
